theory Spec2Isabelle
  imports Main "HOL-Library.Word" "HOL-Library.Signed_Division"
begin

unbundle bit_operations_syntax

section \<open>Wire primitives\<close>

text \<open>
  The library talks to the kernel in little-endian byte frames. Bytes are \<open>8 word\<close>,
  the fixed-width fields of the wire records are \<open>16 word\<close>, \<open>32 word\<close> and
  \<open>64 word\<close>. Go's \<open>int\<close> (lengths, offsets into slices) is modelled by \<open>nat\<close>:
  a slice length is never negative and never reaches \<open>2 ^ 63\<close>; every conversion
  \<open>uint32(n)\<close> of such a length is written out as \<open>of_nat n :: 32 word\<close>, which
  truncates modulo \<open>2 ^ 32\<close> as the Go conversion does.
\<close>

type_synonym byte = "8 word"
type_synonym u16 = "16 word"
type_synonym u32 = "32 word"
type_synonym u64 = "64 word"

text \<open>\<open>le_bytes k v\<close>: the \<open>k\<close> low-order bytes of \<open>v\<close>, least significant first
  (what \<open>binary.LittleEndian.PutUintNN\<close> stores).\<close>

fun le_bytes :: "nat \<Rightarrow> nat \<Rightarrow> byte list" where
  "le_bytes 0 v = []"
| "le_bytes (Suc k) v = of_nat (v mod 256) # le_bytes k (v div 256)"

text \<open>\<open>le_nat bs\<close>: the number a little-endian byte string denotes (what reading a
  field through a struct overlay yields on a little-endian machine).\<close>

fun le_nat :: "byte list \<Rightarrow> nat" where
  "le_nat [] = 0"
| "le_nat (b # bs) = unat b + 256 * le_nat bs"

definition le16 :: "u16 \<Rightarrow> byte list" where
  "le16 v = le_bytes 2 (unat v)"

definition le32 :: "u32 \<Rightarrow> byte list" where
  "le32 v = le_bytes 4 (unat v)"

definition le64 :: "u64 \<Rightarrow> byte list" where
  "le64 v = le_bytes 8 (unat v)"

definition u16_at :: "byte list \<Rightarrow> nat \<Rightarrow> u16" where
  "u16_at xs off = of_nat (le_nat (take 2 (drop off xs)))"

definition u32_at :: "byte list \<Rightarrow> nat \<Rightarrow> u32" where
  "u32_at xs off = of_nat (le_nat (take 4 (drop off xs)))"

definition u64_at :: "byte list \<Rightarrow> nat \<Rightarrow> u64" where
  "u64_at xs off = of_nat (le_nat (take 8 (drop off xs)))"

text \<open>\<open>put data off bs\<close> overwrites \<open>data[off : off + len bs]\<close> with \<open>bs\<close>. Every call
  in the library targets a buffer made with the exact size of the record, so the range
  is always inside \<open>data\<close>.\<close>

definition put :: "byte list \<Rightarrow> nat \<Rightarrow> byte list \<Rightarrow> byte list" where
  "put data off bs = take off data @ bs @ drop (off + length bs) data"

definition PutUint16 :: "byte list \<Rightarrow> nat \<Rightarrow> u16 \<Rightarrow> byte list" where
  "PutUint16 data off v = put data off (le16 v)"

definition PutUint32 :: "byte list \<Rightarrow> nat \<Rightarrow> u32 \<Rightarrow> byte list" where
  "PutUint32 data off v = put data off (le32 v)"

definition PutUint64 :: "byte list \<Rightarrow> nat \<Rightarrow> u64 \<Rightarrow> byte list" where
  "PutUint64 data off v = put data off (le64 v)"

text \<open>Go's \<open>make([]byte, n)\<close>: \<open>n\<close> zero bytes.\<close>

definition make_bytes :: "nat \<Rightarrow> byte list" where
  "make_bytes n = replicate n 0"

text \<open>Go's \<open>copy(dst[off:], src)\<close>: copies \<open>min (len dst - off) (len src)\<close> bytes.\<close>

definition copy_at :: "byte list \<Rightarrow> nat \<Rightarrow> byte list \<Rightarrow> byte list" where
  "copy_at dst off src = put dst off (take (length dst - off) src)"

section \<open>Protocol constants (package proto)\<close>

definition InHeaderSize :: nat where "InHeaderSize = 40"
definition OutHeaderSize :: nat where "OutHeaderSize = 16"
definition EntryOutSize :: nat where "EntryOutSize = 128"
definition AttrOutSize :: nat where "AttrOutSize = 104"
definition OpenOutSize :: nat where "OpenOutSize = 16"
definition BatchForgetInSize :: nat where "BatchForgetInSize = 8"
definition ForgetOneSize :: nat where "ForgetOneSize = 16"
definition DirentSize :: nat where "DirentSize = 24"
definition DirentPlusSize :: nat where "DirentPlusSize = EntryOutSize + DirentSize"
definition StatfsOutSize :: nat where "StatfsOutSize = 64"
definition InitOutSize :: nat where "InitOutSize = 64"

definition FuseKernelVersion :: u32 where "FuseKernelVersion = 7"
definition FuseKernelMinorVersion :: u32 where "FuseKernelMinorVersion = 41"
definition MinSupportedMinor :: u32 where "MinSupportedMinor = 26"
definition DefaultTimeGran :: u32 where "DefaultTimeGran = 1"
definition DefaultMaxPages :: u16 where "DefaultMaxPages = 32"

definition OpLookup :: u32 where "OpLookup = 1"
definition OpForget :: u32 where "OpForget = 2"
definition OpGetattr :: u32 where "OpGetattr = 3"
definition OpSetattr :: u32 where "OpSetattr = 4"
definition OpReadlink :: u32 where "OpReadlink = 5"
definition OpSymlink :: u32 where "OpSymlink = 6"
definition OpMknod :: u32 where "OpMknod = 8"
definition OpMkdir :: u32 where "OpMkdir = 9"
definition OpUnlink :: u32 where "OpUnlink = 10"
definition OpRmdir :: u32 where "OpRmdir = 11"
definition OpRename :: u32 where "OpRename = 12"
definition OpLink :: u32 where "OpLink = 13"
definition OpOpen :: u32 where "OpOpen = 14"
definition OpRead :: u32 where "OpRead = 15"
definition OpWrite :: u32 where "OpWrite = 16"
definition OpStatfs :: u32 where "OpStatfs = 17"
definition OpRelease :: u32 where "OpRelease = 18"
definition OpSetxattr :: u32 where "OpSetxattr = 21"
definition OpRemovexattr :: u32 where "OpRemovexattr = 24"
definition OpFlush :: u32 where "OpFlush = 25"
definition OpInit :: u32 where "OpInit = 26"
definition OpOpendir :: u32 where "OpOpendir = 27"
definition OpReaddir :: u32 where "OpReaddir = 28"
definition OpReleasedir :: u32 where "OpReleasedir = 29"
definition OpAccess :: u32 where "OpAccess = 34"
definition OpCreate :: u32 where "OpCreate = 35"
definition OpInterrupt :: u32 where "OpInterrupt = 36"
definition OpDestroy :: u32 where "OpDestroy = 38"
definition OpBatchForget :: u32 where "OpBatchForget = 42"
definition OpFallocate :: u32 where "OpFallocate = 43"
definition OpReaddirplus :: u32 where "OpReaddirplus = 44"
definition OpRename2 :: u32 where "OpRename2 = 45"
definition OpCopyFileRange :: u32 where "OpCopyFileRange = 47"
definition OpTmpfile :: u32 where "OpTmpfile = 51"

lemmas opcode_defs =
  OpLookup_def OpForget_def OpGetattr_def OpSetattr_def OpReadlink_def OpSymlink_def
  OpMknod_def OpMkdir_def OpUnlink_def OpRmdir_def OpRename_def OpLink_def OpOpen_def
  OpRead_def OpWrite_def OpStatfs_def OpRelease_def OpSetxattr_def OpRemovexattr_def
  OpFlush_def OpInit_def OpOpendir_def OpReaddir_def OpReleasedir_def OpAccess_def
  OpCreate_def OpInterrupt_def OpDestroy_def OpBatchForget_def OpFallocate_def
  OpReaddirplus_def OpRename2_def OpCopyFileRange_def OpTmpfile_def


text \<open>Capability flags (64-bit constants of package proto).\<close>

definition CapAsyncRead :: u64 where "CapAsyncRead = push_bit 0 1"
definition CapExportSupport :: u64 where "CapExportSupport = push_bit 4 1"
definition CapAutoInvalData :: u64 where "CapAutoInvalData = push_bit 12 1"
definition CapReaddirplus :: u64 where "CapReaddirplus = push_bit 13 1"
definition CapReaddirplusAuto :: u64 where "CapReaddirplusAuto = push_bit 14 1"
definition CapParallelDirops :: u64 where "CapParallelDirops = push_bit 18 1"
definition CapMaxPages :: u64 where "CapMaxPages = push_bit 22 1"
definition CapCacheSymlinks :: u64 where "CapCacheSymlinks = push_bit 23 1"
definition CapInitExt :: u64 where "CapInitExt = push_bit 30 1"
definition CapSecurityCtx :: u64 where "CapSecurityCtx = push_bit 32 1"
definition CapPassthrough :: u64 where "CapPassthrough = push_bit 39 1"

lemmas cap_defs =
  CapAsyncRead_def CapExportSupport_def CapAutoInvalData_def CapReaddirplus_def
  CapReaddirplusAuto_def CapParallelDirops_def CapMaxPages_def CapCacheSymlinks_def

definition GetattrFh :: u32 where "GetattrFh = push_bit 0 1"

text \<open>File types of directory entries and mode bits of \<open>Attr.Mode\<close> (the source
  writes the mode bits in octal: \<open>0140000\<close>, \<open>0120000\<close>, \<open>0100000\<close>, \<open>0060000\<close>,
  \<open>0040000\<close>, \<open>0020000\<close>, \<open>0010000\<close>, \<open>04000\<close>, \<open>02000\<close>, \<open>01000\<close>).\<close>

definition DtFifo :: u32 where "DtFifo = 1"
definition DtChr :: u32 where "DtChr = 2"
definition DtDir :: u32 where "DtDir = 4"
definition DtBlk :: u32 where "DtBlk = 6"
definition DtReg :: u32 where "DtReg = 8"
definition DtLnk :: u32 where "DtLnk = 10"
definition DtSock :: u32 where "DtSock = 12"

definition ModeSocket :: u32 where "ModeSocket = 49152"
definition ModeSymlink :: u32 where "ModeSymlink = 40960"
definition ModeRegular :: u32 where "ModeRegular = 32768"
definition ModeBlock :: u32 where "ModeBlock = 24576"
definition ModeDir :: u32 where "ModeDir = 16384"
definition ModeChar :: u32 where "ModeChar = 8192"
definition ModeFifo :: u32 where "ModeFifo = 4096"
definition ModeSetuid :: u32 where "ModeSetuid = 2048"
definition ModeSetgid :: u32 where "ModeSetgid = 1024"
definition ModeSticky :: u32 where "ModeSticky = 512"


section \<open>Data model\<close>

text \<open>
  Go structs are records. Field names are those of the source, prefixed by a short tag
  of the struct, because several structs share field names (\<open>Ino\<close>, \<open>Flags\<close>, ...).
\<close>

text \<open>\<open>proto.InHeader\<close>.\<close>

record in_header =
  ih_Len :: u32
  ih_Opcode :: u32
  ih_Unique :: u64
  ih_NodeID :: u64
  ih_Uid :: u32
  ih_Gid :: u32
  ih_Pid :: u32
  ih_Padding :: u32

text \<open>
  \<open>request\<close> (fields prefixed \<open>r_\<close>): \<open>data\<close> is the slice \<open>buf[:n]\<close> that \<open>readRequest\<close> filled (header
  included, so \<open>InHeaderSize \<le> length data\<close>), \<open>header\<close> is the \<open>InHeader\<close> overlaid on
  its first 40 bytes. \<open>spare\<close> is the rest of the pooled buffer, \<open>buf[n:]\<close>: the slice
  does not cover it, but a struct overlaid on the body through \<open>unsafe.Pointer\<close> reads
  on into it when the body is shorter than the struct. The pooled buffer has at least
  8192 bytes, far more than the header and any fixed-layout body.
\<close>

record request =
  r_header :: in_header
  r_data :: "byte list"
  r_spare :: "byte list"

definition newRequest :: "byte list \<Rightarrow> byte list \<Rightarrow> request" where
  "newRequest d rest =
     \<lparr> r_header = \<lparr> ih_Len = u32_at (d @ rest) 0, ih_Opcode = u32_at (d @ rest) 4,
                   ih_Unique = u64_at (d @ rest) 8, ih_NodeID = u64_at (d @ rest) 16,
                   ih_Uid = u32_at (d @ rest) 24, ih_Gid = u32_at (d @ rest) 28,
                   ih_Pid = u32_at (d @ rest) 32, ih_Padding = u32_at (d @ rest) 36 \<rparr>,
       r_data = d, r_spare = rest \<rparr>"

text \<open>\<open>request.body\<close>: \<open>None\<close> is the nil pointer; otherwise the memory the pointer
  \<open>&r.data[InHeaderSize]\<close> designates, which runs on into the spare part of the buffer.\<close>

definition body :: "request \<Rightarrow> byte list option" where
  "body r = (if length (r_data r) \<le> InHeaderSize then None
             else Some (drop InHeaderSize (r_data r) @ r_spare r))"

text \<open>\<open>request.bodyBytes\<close>: a nil slice has length 0 and is modelled by \<open>[]\<close>.\<close>

definition bodyBytes :: "request \<Rightarrow> byte list" where
  "bodyBytes r = (if length (r_data r) \<le> InHeaderSize then []
                  else drop InHeaderSize (r_data r))"

text \<open>\<open>request.filename\<close>: the body up to the first NUL, the whole body without one.\<close>

definition filename :: "request \<Rightarrow> byte list" where
  "filename r = takeWhile (\<lambda>b. b \<noteq> 0) (bodyBytes r)"

text \<open>Fields of the request structs, read through the overlay pointer.\<close>

definition InitIn_Major :: "byte list \<Rightarrow> u32" where "InitIn_Major p = u32_at p 0"
definition InitIn_Minor :: "byte list \<Rightarrow> u32" where "InitIn_Minor p = u32_at p 4"
definition InitIn_MaxReadahead :: "byte list \<Rightarrow> u32" where "InitIn_MaxReadahead p = u32_at p 8"
definition InitIn_Flags :: "byte list \<Rightarrow> u32" where "InitIn_Flags p = u32_at p 12"
definition InitIn_Flags2 :: "byte list \<Rightarrow> u32" where "InitIn_Flags2 p = u32_at p 16"
definition ForgetIn_Nlookup :: "byte list \<Rightarrow> u64" where "ForgetIn_Nlookup p = u64_at p 0"
definition BatchForgetIn_Count :: "byte list \<Rightarrow> u32" where "BatchForgetIn_Count p = u32_at p 0"
definition ForgetOne_NodeID :: "byte list \<Rightarrow> u64" where "ForgetOne_NodeID p = u64_at p 0"
definition ForgetOne_Nlookup :: "byte list \<Rightarrow> u64" where "ForgetOne_Nlookup p = u64_at p 8"
definition GetAttrIn_Flags :: "byte list \<Rightarrow> u32" where "GetAttrIn_Flags p = u32_at p 0"
definition GetAttrIn_Fh :: "byte list \<Rightarrow> u64" where "GetAttrIn_Fh p = u64_at p 8"
definition OpenIn_Flags :: "byte list \<Rightarrow> u32" where "OpenIn_Flags p = u32_at p 0"
definition ReadIn_Fh :: "byte list \<Rightarrow> u64" where "ReadIn_Fh p = u64_at p 0"
definition ReadIn_Offset :: "byte list \<Rightarrow> u64" where "ReadIn_Offset p = u64_at p 8"
definition ReadIn_Size :: "byte list \<Rightarrow> u32" where "ReadIn_Size p = u32_at p 16"
definition ReleaseIn_Fh :: "byte list \<Rightarrow> u64" where "ReleaseIn_Fh p = u64_at p 0"
definition AccessIn_Mask :: "byte list \<Rightarrow> u32" where "AccessIn_Mask p = u32_at p 0"

text \<open>
  \<open>time.Time\<close> is used only through \<open>Unix()\<close> (an \<open>int64\<close>, kept as its 64 bits) and
  \<open>Nanosecond()\<close>; a time is modelled by these two observations. \<open>os.FileMode\<close> is a
  \<open>uint32\<close>; \<open>time.Duration\<close> is an \<open>int64\<close> count of nanoseconds, kept as a
  \<open>64 word\<close> read by \<open>sint\<close>.
\<close>

record gotime =
  t_Unix :: u64
  t_Nanosecond :: u32

text \<open>\<open>rofuse.Attr\<close>.\<close>

record attr =
  a_Ino :: u64
  a_Size :: u64
  a_Blocks :: u64
  a_Atime :: gotime
  a_Mtime :: gotime
  a_Ctime :: gotime
  a_Mode :: u32
  a_Nlink :: u32
  a_Uid :: u32
  a_Gid :: u32
  a_Rdev :: u32
  a_Blksize :: u32

text \<open>\<open>rofuse.Entry\<close>, \<open>DirEntry\<close>, \<open>DirEntryPlus\<close>, \<open>OpenResponse\<close>, \<open>StatFS\<close>,
  \<open>ForgetEntry\<close>, \<open>Config\<close>, \<open>MountOptions\<close> (the fields the dispatcher reads).\<close>

record entry =
  e_Ino :: u64
  e_Generation :: u64
  e_Attr :: attr
  e_AttrTimeout :: u64
  e_EntryTimeout :: u64

record dir_entry =
  de_Ino :: u64
  de_Offset :: u64
  de_Type :: u32
  de_Name :: "byte list"

record dir_entry_plus =
  dp_Entry :: entry
  dp_Name :: "byte list"

record open_response =
  or_Handle :: u64
  or_Flags :: u32

record stat_fs =
  sf_Blocks :: u64
  sf_Bfree :: u64
  sf_Bavail :: u64
  sf_Files :: u64
  sf_Ffree :: u64
  sf_Bsize :: u32
  sf_Namelen :: u32
  sf_Frsize :: u32

record forget_entry =
  fe_Ino :: u64
  fe_Nlookup :: u64

record config =
  cf_ProtoMajor :: u32
  cf_ProtoMinor :: u32
  cf_MaxReadahead :: u32
  cf_MaxWrite :: u32
  cf_MaxPages :: u16

record mount_options =
  mo_Debug :: bool
  mo_MaxReadahead :: u32
  mo_MaxWrite :: u32
  mo_MaxBackground :: u16

text \<open>\<open>proto.Attr\<close>, \<open>EntryOut\<close>, \<open>AttrOut\<close>, \<open>OpenOut\<close>, \<open>Kstatfs\<close>, \<open>InitOut\<close>.\<close>

record proto_attr =
  pa_Ino :: u64
  pa_Size :: u64
  pa_Blocks :: u64
  pa_Atime :: u64
  pa_Mtime :: u64
  pa_Ctime :: u64
  pa_AtimeNsec :: u32
  pa_MtimeNsec :: u32
  pa_CtimeNsec :: u32
  pa_Mode :: u32
  pa_Nlink :: u32
  pa_Uid :: u32
  pa_Gid :: u32
  pa_Rdev :: u32
  pa_Blksize :: u32
  pa_Flags :: u32

record entry_out =
  eo_NodeID :: u64
  eo_Generation :: u64
  eo_EntryValid :: u64
  eo_AttrValid :: u64
  eo_EntryValidNsec :: u32
  eo_AttrValidNsec :: u32
  eo_Attr :: proto_attr

record attr_out =
  ao_AttrValid :: u64
  ao_AttrValidNsec :: u32
  ao_Dummy :: u32
  ao_Attr :: proto_attr

record open_out =
  oo_Fh :: u64
  oo_OpenFlags :: u32
  oo_Padding :: u32

record kstatfs =
  ks_Blocks :: u64
  ks_Bfree :: u64
  ks_Bavail :: u64
  ks_Files :: u64
  ks_Ffree :: u64
  ks_Bsize :: u32
  ks_Namelen :: u32
  ks_Frsize :: u32

record init_out =
  io_Major :: u32
  io_Minor :: u32
  io_MaxReadahead :: u32
  io_Flags :: u32
  io_MaxBackground :: u16
  io_CongestionThreshold :: u16
  io_MaxWrite :: u32
  io_TimeGran :: u32
  io_MaxPages :: u16
  io_MapAlignment :: u16
  io_Flags2 :: u32
  io_MaxStackDepth :: u32


section \<open>Conversions between user types and wire types\<close>

text \<open>Go's \<open>/\<close> and \<open>%\<close> on \<open>int64\<close> truncate towards zero (\<open>sdiv\<close>, \<open>smod\<close> on the
  signed values); the result is stored back in 64 bits.\<close>

definition go_quo :: "u64 \<Rightarrow> u64 \<Rightarrow> u64" where
  "go_quo a b = word_of_int (sint a sdiv sint b)"

definition go_rem :: "u64 \<Rightarrow> u64 \<Rightarrow> u64" where
  "go_rem a b = word_of_int (sint a smod sint b)"

definition time_Nanosecond :: u64 where "time_Nanosecond = 1"
definition time_Second :: u64 where "time_Second = 1000000000"

text \<open>\<open>durationToTimespec\<close>: \<open>sec = uint64(d / time.Second)\<close>,
  \<open>nsec = uint32((d % time.Second) / time.Nanosecond)\<close>.\<close>

definition durationToTimespec :: "u64 \<Rightarrow> u64 \<times> u32" where
  "durationToTimespec d =
     (go_quo d time_Second, ucast (go_quo (go_rem d time_Second) time_Nanosecond))"

text \<open>The bits of \<open>os.FileMode\<close> (Go's package \<open>io/fs\<close>, outside the repository):
  \<open>ModeDir = 1 << 31\<close>, \<open>ModeSymlink = 1 << 27\<close>, \<open>ModeDevice = 1 << 26\<close>,
  \<open>ModeNamedPipe = 1 << 25\<close>, \<open>ModeSocket = 1 << 24\<close>, \<open>ModeSetuid = 1 << 23\<close>,
  \<open>ModeSetgid = 1 << 22\<close>, \<open>ModeCharDevice = 1 << 21\<close>, \<open>ModeSticky = 1 << 20\<close>,
  \<open>ModeIrregular = 1 << 19\<close>, \<open>ModePerm = 0777\<close>; \<open>Type()\<close> masks with \<open>ModeType\<close>,
  \<open>Perm()\<close> with \<open>ModePerm\<close>.\<close>

definition os_ModeDir :: u32 where "os_ModeDir = push_bit 31 1"
definition os_ModeSymlink :: u32 where "os_ModeSymlink = push_bit 27 1"
definition os_ModeDevice :: u32 where "os_ModeDevice = push_bit 26 1"
definition os_ModeNamedPipe :: u32 where "os_ModeNamedPipe = push_bit 25 1"
definition os_ModeSocket :: u32 where "os_ModeSocket = push_bit 24 1"
definition os_ModeSetuid :: u32 where "os_ModeSetuid = push_bit 23 1"
definition os_ModeSetgid :: u32 where "os_ModeSetgid = push_bit 22 1"
definition os_ModeCharDevice :: u32 where "os_ModeCharDevice = push_bit 21 1"
definition os_ModeSticky :: u32 where "os_ModeSticky = push_bit 20 1"
definition os_ModeIrregular :: u32 where "os_ModeIrregular = push_bit 19 1"
definition os_ModePerm :: u32 where "os_ModePerm = 511"

definition os_ModeType :: u32 where
  "os_ModeType = os_ModeDir OR os_ModeSymlink OR os_ModeNamedPipe OR os_ModeSocket
                 OR os_ModeDevice OR os_ModeCharDevice OR os_ModeIrregular"

definition fileModeToUnix :: "u32 \<Rightarrow> u32" where
  "fileModeToUnix mode =
     (let m = mode AND os_ModePerm;
          t = mode AND os_ModeType;
          m = (if t = os_ModeDir then m OR ModeDir
               else if t = os_ModeSymlink then m OR ModeSymlink
               else if t = os_ModeNamedPipe then m OR ModeFifo
               else if t = os_ModeSocket then m OR ModeSocket
               else if t = os_ModeDevice then
                      (if mode AND os_ModeCharDevice \<noteq> 0 then m OR ModeChar else m OR ModeBlock)
               else m OR ModeRegular);
          m = (if mode AND os_ModeSetuid \<noteq> 0 then m OR ModeSetuid else m);
          m = (if mode AND os_ModeSetgid \<noteq> 0 then m OR ModeSetgid else m);
          m = (if mode AND os_ModeSticky \<noteq> 0 then m OR ModeSticky else m)
      in m)"

definition fileModeToType :: "u32 \<Rightarrow> u32" where
  "fileModeToType mode =
     (let t = mode AND os_ModeType
      in if t = os_ModeDir then DtDir
         else if t = os_ModeSymlink then DtLnk
         else if t = os_ModeNamedPipe then DtFifo
         else if t = os_ModeSocket then DtSock
         else if t = os_ModeDevice then
                (if mode AND os_ModeCharDevice \<noteq> 0 then DtChr else DtBlk)
         else DtReg)"

definition attrToProto :: "attr \<Rightarrow> proto_attr" where
  "attrToProto a =
     \<lparr> pa_Ino = a_Ino a, pa_Size = a_Size a, pa_Blocks = a_Blocks a,
       pa_Atime = t_Unix (a_Atime a), pa_Mtime = t_Unix (a_Mtime a),
       pa_Ctime = t_Unix (a_Ctime a),
       pa_AtimeNsec = t_Nanosecond (a_Atime a), pa_MtimeNsec = t_Nanosecond (a_Mtime a),
       pa_CtimeNsec = t_Nanosecond (a_Ctime a),
       pa_Mode = fileModeToUnix (a_Mode a), pa_Nlink = a_Nlink a, pa_Uid = a_Uid a,
       pa_Gid = a_Gid a, pa_Rdev = a_Rdev a, pa_Blksize = a_Blksize a, pa_Flags = 0 \<rparr>"

definition entryToProto :: "entry \<Rightarrow> entry_out" where
  "entryToProto e =
     (let (entrySec, entryNsec) = durationToTimespec (e_EntryTimeout e);
          (attrSec, attrNsec) = durationToTimespec (e_AttrTimeout e)
      in \<lparr> eo_NodeID = e_Ino e, eo_Generation = e_Generation e,
           eo_EntryValid = entrySec, eo_AttrValid = attrSec,
           eo_EntryValidNsec = entryNsec, eo_AttrValidNsec = attrNsec,
           eo_Attr = attrToProto (e_Attr e) \<rparr>)"

section \<open>Serializers\<close>

text \<open>\<open>writeAttr(data[base:], attr)\<close> writes through the sub-slice into \<open>data\<close>.\<close>

definition writeAttr :: "byte list \<Rightarrow> nat \<Rightarrow> proto_attr \<Rightarrow> byte list" where
  "writeAttr data base a =
     (let data = PutUint64 data (base + 0) (pa_Ino a);
          data = PutUint64 data (base + 8) (pa_Size a);
          data = PutUint64 data (base + 16) (pa_Blocks a);
          data = PutUint64 data (base + 24) (pa_Atime a);
          data = PutUint64 data (base + 32) (pa_Mtime a);
          data = PutUint64 data (base + 40) (pa_Ctime a);
          data = PutUint32 data (base + 48) (pa_AtimeNsec a);
          data = PutUint32 data (base + 52) (pa_MtimeNsec a);
          data = PutUint32 data (base + 56) (pa_CtimeNsec a);
          data = PutUint32 data (base + 60) (pa_Mode a);
          data = PutUint32 data (base + 64) (pa_Nlink a);
          data = PutUint32 data (base + 68) (pa_Uid a);
          data = PutUint32 data (base + 72) (pa_Gid a);
          data = PutUint32 data (base + 76) (pa_Rdev a);
          data = PutUint32 data (base + 80) (pa_Blksize a);
          data = PutUint32 data (base + 84) (pa_Flags a)
      in data)"

definition initOutBytes :: "init_out \<Rightarrow> byte list" where
  "initOutBytes out =
     (let data = make_bytes InitOutSize;
          data = PutUint32 data 0 (io_Major out);
          data = PutUint32 data 4 (io_Minor out);
          data = PutUint32 data 8 (io_MaxReadahead out);
          data = PutUint32 data 12 (io_Flags out);
          data = PutUint16 data 16 (io_MaxBackground out);
          data = PutUint16 data 18 (io_CongestionThreshold out);
          data = PutUint32 data 20 (io_MaxWrite out);
          data = PutUint32 data 24 (io_TimeGran out);
          data = PutUint16 data 28 (io_MaxPages out);
          data = PutUint16 data 30 (io_MapAlignment out);
          data = PutUint32 data 32 (io_Flags2 out);
          data = PutUint32 data 36 (io_MaxStackDepth out)
      in data)"

definition entryOutBytes :: "entry_out \<Rightarrow> byte list" where
  "entryOutBytes out =
     (let data = make_bytes EntryOutSize;
          data = PutUint64 data 0 (eo_NodeID out);
          data = PutUint64 data 8 (eo_Generation out);
          data = PutUint64 data 16 (eo_EntryValid out);
          data = PutUint64 data 24 (eo_AttrValid out);
          data = PutUint32 data 32 (eo_EntryValidNsec out);
          data = PutUint32 data 36 (eo_AttrValidNsec out)
      in writeAttr data 40 (eo_Attr out))"

definition attrOutBytes :: "attr_out \<Rightarrow> byte list" where
  "attrOutBytes out =
     (let data = make_bytes AttrOutSize;
          data = PutUint64 data 0 (ao_AttrValid out);
          data = PutUint32 data 8 (ao_AttrValidNsec out);
          data = PutUint32 data 12 (ao_Dummy out)
      in writeAttr data 16 (ao_Attr out))"

definition openOutBytes :: "open_out \<Rightarrow> byte list" where
  "openOutBytes out =
     (let data = make_bytes OpenOutSize;
          data = PutUint64 data 0 (oo_Fh out);
          data = PutUint32 data 8 (oo_OpenFlags out);
          data = PutUint32 data 12 (oo_Padding out)
      in data)"

definition statfsOutBytes :: "kstatfs \<Rightarrow> byte list" where
  "statfsOutBytes st =
     (let data = make_bytes StatfsOutSize;
          data = PutUint64 data 0 (ks_Blocks st);
          data = PutUint64 data 8 (ks_Bfree st);
          data = PutUint64 data 16 (ks_Bavail st);
          data = PutUint64 data 24 (ks_Files st);
          data = PutUint64 data 32 (ks_Ffree st);
          data = PutUint32 data 40 (ks_Bsize st);
          data = PutUint32 data 44 (ks_Namelen st);
          data = PutUint32 data 48 (ks_Frsize st)
      in data)"

text \<open>\<open>(entrySize + 7) &^ 7\<close> on Go's \<open>int\<close>: AND with the complement of 7.\<close>

definition pad8 :: "nat \<Rightarrow> nat" where
  "pad8 entrySize = nat ((int entrySize + 7) AND NOT 7)"

text \<open>The record \<open>serializeDirents\<close> builds for one entry, of \<open>paddedSize\<close> bytes.\<close>

definition dirent_record :: "dir_entry \<Rightarrow> byte list" where
  "dirent_record entry =
     (let nameLen = length (de_Name entry);
          entrySize = DirentSize + nameLen;
          paddedSize = pad8 entrySize;
          dirent = make_bytes paddedSize;
          dirent = PutUint64 dirent 0 (de_Ino entry);
          dirent = PutUint64 dirent 8 (de_Offset entry);
          dirent = PutUint32 dirent 16 (of_nat nameLen);
          dirent = PutUint32 dirent 20 (de_Type entry)
      in copy_at dirent DirentSize (de_Name entry))"

text \<open>\<open>serializeDirents\<close>: the loop over the entries with the buffer built so far;
  \<open>break\<close> returns the buffer. The test is \<open>uint32(len(buf)+paddedSize) > maxSize\<close>.\<close>

fun serializeDirents_loop :: "dir_entry list \<Rightarrow> u32 \<Rightarrow> byte list \<Rightarrow> byte list" where
  "serializeDirents_loop [] maxSize buf = buf"
| "serializeDirents_loop (entry # entries) maxSize buf =
     (let nameLen = length (de_Name entry);
          entrySize = DirentSize + nameLen;
          paddedSize = pad8 entrySize
      in if (of_nat (length buf + paddedSize) :: u32) > maxSize then buf
         else serializeDirents_loop entries maxSize (buf @ dirent_record entry))"

definition serializeDirents :: "dir_entry list \<Rightarrow> u32 \<Rightarrow> byte list" where
  "serializeDirents entries maxSize = serializeDirents_loop entries maxSize []"

text \<open>The two pieces \<open>serializeDirentsPlus\<close> appends for one entry.\<close>

definition direntplus_suffix :: "dir_entry_plus \<Rightarrow> byte list" where
  "direntplus_suffix entry =
     (let nameLen = length (dp_Name entry);
          entrySize = DirentPlusSize + nameLen;
          paddedSize = pad8 entrySize;
          direntData = make_bytes (paddedSize - EntryOutSize);
          direntData = PutUint64 direntData 0 (e_Ino (dp_Entry entry));
          direntData = PutUint64 direntData 8 (e_Generation (dp_Entry entry));
          direntData = PutUint32 direntData 16 (of_nat nameLen);
          direntData = PutUint32 direntData 20 (fileModeToType (a_Mode (e_Attr (dp_Entry entry))))
      in copy_at direntData DirentSize (dp_Name entry))"

fun serializeDirentsPlus_loop :: "dir_entry_plus list \<Rightarrow> u32 \<Rightarrow> byte list \<Rightarrow> byte list" where
  "serializeDirentsPlus_loop [] maxSize buf = buf"
| "serializeDirentsPlus_loop (entry # entries) maxSize buf =
     (let nameLen = length (dp_Name entry);
          entrySize = DirentPlusSize + nameLen;
          paddedSize = pad8 entrySize
      in if (of_nat (length buf + paddedSize) :: u32) > maxSize then buf
         else (let entryOut = entryToProto (dp_Entry entry);
                   entryOutData = entryOutBytes entryOut;
                   direntData = direntplus_suffix entry
               in serializeDirentsPlus_loop entries maxSize (buf @ entryOutData @ direntData)))"

definition serializeDirentsPlus :: "dir_entry_plus list \<Rightarrow> u32 \<Rightarrow> byte list" where
  "serializeDirentsPlus entries maxSize = serializeDirentsPlus_loop entries maxSize []"


section \<open>Errors\<close>

text \<open>
  A Go \<open>error\<close> is modelled by the first branch of \<open>toErrno\<close> it takes: \<open>Errno e\<close> is
  an error whose chain holds a \<open>syscall.Errno\<close> (a \<open>uintptr\<close>, 64 bits on the supported
  platforms); the other constructors are the errors \<open>errors.Is\<close> recognises, in the
  order of the \<open>switch\<close>; \<open>ErrOther\<close> is every other error. The \<open>nil\<close> error is
  \<open>None\<close>. The errno numbers are those of package \<open>syscall\<close> on Linux.
\<close>

datatype go_error =
    Errno u64
  | ErrNotExist | ErrExist | ErrPermission | ErrClosed | ErrInvalid
  | EOF | Canceled | DeadlineExceeded | ErrOther

definition ENOENT :: u64 where "ENOENT = 2"
definition EINTR :: u64 where "EINTR = 4"
definition EIO :: u64 where "EIO = 5"
definition EBADF :: u64 where "EBADF = 9"
definition EACCES :: u64 where "EACCES = 13"
definition EEXIST :: u64 where "EEXIST = 17"
definition EINVAL :: u64 where "EINVAL = 22"
definition EROFS :: u64 where "EROFS = 30"
definition ENOSYS :: u64 where "ENOSYS = 38"
definition EPROTO :: u64 where "EPROTO = 71"
definition ETIMEDOUT :: u64 where "ETIMEDOUT = 110"

lemmas errno_defs =
  ENOENT_def EINTR_def EIO_def EBADF_def EACCES_def EEXIST_def EINVAL_def EROFS_def
  ENOSYS_def EPROTO_def ETIMEDOUT_def

text \<open>\<open>toErrno\<close> returns an \<open>int32\<close>, kept as its 32 bits (\<open>sint\<close> reads the sign).
  \<open>-int32(errno)\<close> truncates the \<open>uintptr\<close> to 32 bits and negates with wrap-around.\<close>

definition toErrno :: "go_error option \<Rightarrow> u32" where
  "toErrno err =
     (case err of
        None \<Rightarrow> 0
      | Some (Errno errno) \<Rightarrow> - (ucast errno)
      | Some ErrNotExist \<Rightarrow> - (ucast ENOENT)
      | Some ErrExist \<Rightarrow> - (ucast EEXIST)
      | Some ErrPermission \<Rightarrow> - (ucast EACCES)
      | Some ErrClosed \<Rightarrow> - (ucast EBADF)
      | Some ErrInvalid \<Rightarrow> - (ucast EINVAL)
      | Some EOF \<Rightarrow> 0
      | Some Canceled \<Rightarrow> - (ucast EINTR)
      | Some DeadlineExceeded \<Rightarrow> - (ucast ETIMEDOUT)
      | Some ErrOther \<Rightarrow> - (ucast EIO))"

section \<open>Responses\<close>

text \<open>\<open>newResponse\<close> builds the frame of a success reply with room for the payload;
  \<open>newErrorResponse\<close> the header-only frame of an error reply. A \<open>response\<close> is its
  \<open>data\<close>.\<close>

definition newResponse :: "request \<Rightarrow> nat \<Rightarrow> byte list" where
  "newResponse req payloadSize =
     (let size = OutHeaderSize + payloadSize;
          data = make_bytes size;
          data = PutUint32 data 0 (of_nat size);
          data = PutUint32 data 4 0;
          data = PutUint64 data 8 (ih_Unique (r_header req))
      in data)"

definition newErrorResponse :: "request \<Rightarrow> u32 \<Rightarrow> byte list" where
  "newErrorResponse req errno =
     (let data = make_bytes OutHeaderSize;
          data = PutUint32 data 0 (of_nat OutHeaderSize);
          data = PutUint32 data 4 errno;
          data = PutUint64 data 8 (ih_Unique (r_header req))
      in data)"

text \<open>The fields of the \<open>OutHeader\<close> a frame starts with, as the kernel reads them.\<close>

definition OutHeader_Len :: "byte list \<Rightarrow> u32" where "OutHeader_Len f = u32_at f 0"
definition OutHeader_Error :: "byte list \<Rightarrow> u32" where "OutHeader_Error f = u32_at f 4"
definition OutHeader_Unique :: "byte list \<Rightarrow> u64" where "OutHeader_Unique f = u64_at f 8"

section \<open>Server state, filesystem callbacks\<close>

text \<open>
  \<open>connection\<close> keeps the negotiated version; \<open>c_written\<close> is the sequence of frames
  handed to \<open>write(2)\<close> on the device, in order. \<open>server\<close> holds the connection, the
  configuration, the options and the two state flags; \<open>s_calls\<close> is the trace of the
  methods of the filesystem invoked so far.
\<close>

record connection =
  c_protoMajor :: u32
  c_protoMinor :: u32
  c_written :: "byte list list"

record fuseContext =
  ctx_uid :: u32
  ctx_gid :: u32
  ctx_pid :: u32
  ctx_unique :: u64

datatype fs_call =
    CallInit fuseContext config
  | CallDestroy fuseContext
  | CallLookup fuseContext u64 "byte list"
  | CallGetAttr fuseContext u64 "u64 option"
  | CallReadLink fuseContext u64
  | CallOpen fuseContext u64 u32
  | CallRead fuseContext u64 u64 u64 u32
  | CallRelease fuseContext u64 u64
  | CallOpenDir fuseContext u64 u32
  | CallReadDir fuseContext u64 u64 u64 u32
  | CallReadDirPlus fuseContext u64 u64 u64 u32
  | CallReleaseDir fuseContext u64 u64
  | CallStatFS fuseContext u64
  | CallAccess fuseContext u64 u32
  | CallForget fuseContext u64 u64
  | CallBatchForget fuseContext "forget_entry list"

record server =
  s_conn :: connection
  s_config :: "config option"
  s_opts :: mount_options
  s_initialized :: bool
  s_destroyed :: bool
  s_calls :: "fs_call list"

text \<open>
  The \<open>Filesystem\<close> interface, one function per method that returns something; a method
  returning \<open>(value, error)\<close> yields \<open>Inl\<close> the error or \<open>Inr\<close> the value, a method
  returning \<open>error\<close> yields \<open>Some\<close> the error or \<open>None\<close> for \<open>nil\<close>. \<open>Destroy\<close>,
  \<open>Forget\<close> and \<open>BatchForget\<close> return nothing and appear in the trace only. The
  callbacks are taken to return, to return a value whenever the error is \<open>nil\<close>, and
  to leave the \<open>Config\<close> handed to \<open>Init\<close> as it is.
\<close>

record filesystem =
  fs_Init :: "fuseContext \<Rightarrow> config \<Rightarrow> go_error option"
  fs_Lookup :: "fuseContext \<Rightarrow> u64 \<Rightarrow> byte list \<Rightarrow> go_error + entry"
  fs_GetAttr :: "fuseContext \<Rightarrow> u64 \<Rightarrow> u64 option \<Rightarrow> go_error + attr"
  fs_ReadLink :: "fuseContext \<Rightarrow> u64 \<Rightarrow> go_error + byte list"
  fs_Open :: "fuseContext \<Rightarrow> u64 \<Rightarrow> u32 \<Rightarrow> go_error + open_response"
  fs_Read :: "fuseContext \<Rightarrow> u64 \<Rightarrow> u64 \<Rightarrow> u64 \<Rightarrow> u32 \<Rightarrow> go_error + byte list"
  fs_Release :: "fuseContext \<Rightarrow> u64 \<Rightarrow> u64 \<Rightarrow> go_error option"
  fs_OpenDir :: "fuseContext \<Rightarrow> u64 \<Rightarrow> u32 \<Rightarrow> go_error + open_response"
  fs_ReadDir :: "fuseContext \<Rightarrow> u64 \<Rightarrow> u64 \<Rightarrow> u64 \<Rightarrow> u32 \<Rightarrow> go_error + dir_entry list"
  fs_ReadDirPlus :: "fuseContext \<Rightarrow> u64 \<Rightarrow> u64 \<Rightarrow> u64 \<Rightarrow> u32 \<Rightarrow> go_error + dir_entry_plus list"
  fs_ReleaseDir :: "fuseContext \<Rightarrow> u64 \<Rightarrow> u64 \<Rightarrow> go_error option"
  fs_StatFS :: "fuseContext \<Rightarrow> u64 \<Rightarrow> go_error + stat_fs"
  fs_Access :: "fuseContext \<Rightarrow> u64 \<Rightarrow> u32 \<Rightarrow> go_error option"

definition record_call :: "fs_call \<Rightarrow> server \<Rightarrow> server" where
  "record_call c s = s\<lparr>s_calls := s_calls s @ [c]\<rparr>"

definition writeResponse :: "connection \<Rightarrow> byte list \<Rightarrow> connection" where
  "writeResponse c d = c\<lparr>c_written := c_written c @ [d]\<rparr>"

definition newContext :: "request \<Rightarrow> fuseContext" where
  "newContext req =
     \<lparr> ctx_uid = ih_Uid (r_header req), ctx_gid = ih_Gid (r_header req),
       ctx_pid = ih_Pid (r_header req), ctx_unique = ih_Unique (r_header req) \<rparr>"

definition sendError :: "server \<Rightarrow> request \<Rightarrow> go_error \<Rightarrow> server" where
  "sendError s req err =
     (if ih_Opcode (r_header req) = OpForget \<or> ih_Opcode (r_header req) = OpBatchForget
      then s
      else (let errno = toErrno (Some err);
                resp = newErrorResponse req errno
            in s\<lparr>s_conn := writeResponse (s_conn s) resp\<rparr>))"

definition sendResponse :: "server \<Rightarrow> request \<Rightarrow> byte list \<Rightarrow> server" where
  "sendResponse s req payload =
     (let resp = newResponse req (length payload);
          resp = (if length payload > 0 then copy_at resp OutHeaderSize payload else resp)
      in s\<lparr>s_conn := writeResponse (s_conn s) resp\<rparr>)"

definition isWriteOp :: "u32 \<Rightarrow> bool" where
  "isWriteOp opcode \<longleftrightarrow>
     opcode = OpSetattr \<or> opcode = OpSymlink \<or> opcode = OpMknod \<or> opcode = OpMkdir
     \<or> opcode = OpUnlink \<or> opcode = OpRmdir \<or> opcode = OpRename \<or> opcode = OpLink
     \<or> opcode = OpWrite \<or> opcode = OpSetxattr \<or> opcode = OpRemovexattr
     \<or> opcode = OpCreate \<or> opcode = OpRename2 \<or> opcode = OpFallocate
     \<or> opcode = OpCopyFileRange \<or> opcode = OpTmpfile"


section \<open>Handlers\<close>

text \<open>
  A handler returns an error or \<open>nil\<close>, or panics: dereferencing the nil pointer that
  \<open>body\<close> returns for a request without body is a run-time panic, which nothing in the
  library recovers. A panic precedes every effect of the handler it occurs in (the
  arguments of a call are evaluated before the call).
\<close>

datatype outcome = Returned "go_error option" | Panicked

type_synonym handler = "filesystem \<Rightarrow> server \<Rightarrow> request \<Rightarrow> server \<times> outcome"

definition our_flags :: u32 where
  "our_flags =
     (let flags = 0;
          flags = flags OR ucast CapAsyncRead;
          flags = flags OR ucast CapParallelDirops;
          flags = flags OR ucast CapAutoInvalData;
          flags = flags OR ucast CapReaddirplus;
          flags = flags OR ucast CapReaddirplusAuto;
          flags = flags OR ucast CapCacheSymlinks;
          flags = flags OR ucast CapExportSupport;
          flags = flags OR ucast CapMaxPages
      in flags)"

definition handleInit :: handler where
  "handleInit fs s req =
     (case body req of
        None \<Rightarrow> (s, Panicked)
      | Some inp \<Rightarrow>
          if InitIn_Major inp \<noteq> FuseKernelVersion then
            (let out = \<lparr> io_Major = FuseKernelVersion, io_Minor = FuseKernelMinorVersion,
                         io_MaxReadahead = 0, io_Flags = 0, io_MaxBackground = 0,
                         io_CongestionThreshold = 0, io_MaxWrite = 0, io_TimeGran = 0,
                         io_MaxPages = 0, io_MapAlignment = 0, io_Flags2 = 0,
                         io_MaxStackDepth = 0 \<rparr>
             in (sendResponse s req (initOutBytes out), Returned None))
          else if InitIn_Minor inp < MinSupportedMinor then (s, Returned (Some (Errno EPROTO)))
          else
            (let minor = (if InitIn_Minor inp > FuseKernelMinorVersion
                          then FuseKernelMinorVersion else InitIn_Minor inp);
                 s = s\<lparr>s_conn := (s_conn s)\<lparr>c_protoMajor := InitIn_Major inp,
                                             c_protoMinor := minor\<rparr>\<rparr>;
                 cfg = \<lparr> cf_ProtoMajor = InitIn_Major inp, cf_ProtoMinor = minor,
                         cf_MaxReadahead = min (InitIn_MaxReadahead inp) (mo_MaxReadahead (s_opts s)),
                         cf_MaxWrite = mo_MaxWrite (s_opts s),
                         cf_MaxPages = DefaultMaxPages \<rparr>;
                 s = s\<lparr>s_config := Some cfg\<rparr>;
                 ctx = newContext req;
                 s = record_call (CallInit ctx cfg) s
             in case fs_Init fs ctx cfg of
                  Some err \<Rightarrow> (s, Returned (Some err))
                | None \<Rightarrow>
                    (let flags = our_flags AND InitIn_Flags inp;
                         out = \<lparr> io_Major = FuseKernelVersion, io_Minor = minor,
                                 io_MaxReadahead = cf_MaxReadahead cfg, io_Flags = flags,
                                 io_MaxBackground = mo_MaxBackground (s_opts s),
                                 io_CongestionThreshold = mo_MaxBackground (s_opts s) * 3 div 4,
                                 io_MaxWrite = mo_MaxWrite (s_opts s),
                                 io_TimeGran = DefaultTimeGran,
                                 io_MaxPages = DefaultMaxPages, io_MapAlignment = 0,
                                 io_Flags2 = 0, io_MaxStackDepth = 0 \<rparr>;
                         s = s\<lparr>s_initialized := True\<rparr>
                     in (sendResponse s req (initOutBytes out), Returned None))))"

definition handleDestroy :: handler where
  "handleDestroy fs s req =
     (let ctx = newContext req;
          s = record_call (CallDestroy ctx) s;
          s = s\<lparr>s_destroyed := True\<rparr>
      in (sendResponse s req [], Returned None))"

definition handleLookup :: handler where
  "handleLookup fs s req =
     (let name = filename req;
          ctx = newContext req;
          s = record_call (CallLookup ctx (ih_NodeID (r_header req)) name) s
      in case fs_Lookup fs ctx (ih_NodeID (r_header req)) name of
           Inl err \<Rightarrow> (s, Returned (Some err))
         | Inr entry \<Rightarrow>
             (let out = entryToProto entry
              in (sendResponse s req (entryOutBytes out), Returned None)))"

definition handleForget :: handler where
  "handleForget fs s req =
     (case body req of
        None \<Rightarrow> (s, Panicked)
      | Some inp \<Rightarrow>
          (let ctx = newContext req;
               s = record_call (CallForget ctx (ih_NodeID (r_header req)) (ForgetIn_Nlookup inp)) s
           in (s, Returned None)))"

text \<open>The loop of \<open>handleBatchForget\<close>: \<open>k\<close> counts the iterations left
  (\<open>in.Count - i\<close>); \<open>break\<close> returns the slice as it is.\<close>

fun parse_forget :: "nat \<Rightarrow> nat \<Rightarrow> nat \<Rightarrow> byte list \<Rightarrow> forget_entry list \<Rightarrow> forget_entry list" where
  "parse_forget 0 i offset bodyb entries = entries"
| "parse_forget (Suc k) i offset bodyb entries =
     (if offset + ForgetOneSize > length bodyb then entries
      else (let one = drop offset bodyb;
                entries = entries[i := \<lparr> fe_Ino = ForgetOne_NodeID one,
                                          fe_Nlookup = ForgetOne_Nlookup one \<rparr>]
            in parse_forget k (Suc i) (offset + ForgetOneSize) bodyb entries))"

definition handleBatchForget :: handler where
  "handleBatchForget fs s req =
     (let bodyb = bodyBytes req
      in if length bodyb < BatchForgetInSize then (s, Returned (Some (Errno EINVAL)))
         else (case body req of
                 None \<Rightarrow> (s, Panicked)
               | Some inp \<Rightarrow>
                   (let count = unat (BatchForgetIn_Count inp);
                        entries = replicate count \<lparr> fe_Ino = 0, fe_Nlookup = 0 \<rparr>;
                        entries = parse_forget count 0 BatchForgetInSize bodyb entries;
                        ctx = newContext req;
                        s = record_call (CallBatchForget ctx entries) s
                    in (s, Returned None))))"

definition handleGetattr :: handler where
  "handleGetattr fs s req =
     (case body req of
        None \<Rightarrow> (s, Panicked)
      | Some inp \<Rightarrow>
          (let fh = (if GetAttrIn_Flags inp AND GetattrFh \<noteq> 0 then Some (GetAttrIn_Fh inp)
                     else None);
               ctx = newContext req;
               s = record_call (CallGetAttr ctx (ih_NodeID (r_header req)) fh) s
           in case fs_GetAttr fs ctx (ih_NodeID (r_header req)) fh of
                Inl err \<Rightarrow> (s, Returned (Some err))
              | Inr a \<Rightarrow>
                  (let out = \<lparr> ao_AttrValid = 1, ao_AttrValidNsec = 0, ao_Dummy = 0,
                               ao_Attr = attrToProto a \<rparr>
                   in (sendResponse s req (attrOutBytes out), Returned None))))"

definition handleReadlink :: handler where
  "handleReadlink fs s req =
     (let ctx = newContext req;
          s = record_call (CallReadLink ctx (ih_NodeID (r_header req))) s
      in case fs_ReadLink fs ctx (ih_NodeID (r_header req)) of
           Inl err \<Rightarrow> (s, Returned (Some err))
         | Inr target \<Rightarrow> (sendResponse s req target, Returned None))"

definition handleOpen :: handler where
  "handleOpen fs s req =
     (case body req of
        None \<Rightarrow> (s, Panicked)
      | Some inp \<Rightarrow>
          (let ctx = newContext req;
               s = record_call (CallOpen ctx (ih_NodeID (r_header req)) (OpenIn_Flags inp)) s
           in case fs_Open fs ctx (ih_NodeID (r_header req)) (OpenIn_Flags inp) of
                Inl err \<Rightarrow> (s, Returned (Some err))
              | Inr resp \<Rightarrow>
                  (let out = \<lparr> oo_Fh = or_Handle resp, oo_OpenFlags = or_Flags resp,
                               oo_Padding = 0 \<rparr>
                   in (sendResponse s req (openOutBytes out), Returned None))))"

definition handleRead :: handler where
  "handleRead fs s req =
     (case body req of
        None \<Rightarrow> (s, Panicked)
      | Some inp \<Rightarrow>
          (let ctx = newContext req;
               s = record_call (CallRead ctx (ih_NodeID (r_header req)) (ReadIn_Fh inp)
                                  (ReadIn_Offset inp) (ReadIn_Size inp)) s
           in case fs_Read fs ctx (ih_NodeID (r_header req)) (ReadIn_Fh inp)
                     (ReadIn_Offset inp) (ReadIn_Size inp) of
                Inl err \<Rightarrow> (s, Returned (Some err))
              | Inr d \<Rightarrow> (sendResponse s req d, Returned None)))"

definition handleRelease :: handler where
  "handleRelease fs s req =
     (case body req of
        None \<Rightarrow> (s, Panicked)
      | Some inp \<Rightarrow>
          (let ctx = newContext req;
               s = record_call (CallRelease ctx (ih_NodeID (r_header req)) (ReleaseIn_Fh inp)) s
           in case fs_Release fs ctx (ih_NodeID (r_header req)) (ReleaseIn_Fh inp) of
                Some err \<Rightarrow> (s, Returned (Some err))
              | None \<Rightarrow> (sendResponse s req [], Returned None)))"

definition handleOpendir :: handler where
  "handleOpendir fs s req =
     (case body req of
        None \<Rightarrow> (s, Panicked)
      | Some inp \<Rightarrow>
          (let ctx = newContext req;
               s = record_call (CallOpenDir ctx (ih_NodeID (r_header req)) (OpenIn_Flags inp)) s
           in case fs_OpenDir fs ctx (ih_NodeID (r_header req)) (OpenIn_Flags inp) of
                Inl err \<Rightarrow> (s, Returned (Some err))
              | Inr resp \<Rightarrow>
                  (let out = \<lparr> oo_Fh = or_Handle resp, oo_OpenFlags = or_Flags resp,
                               oo_Padding = 0 \<rparr>
                   in (sendResponse s req (openOutBytes out), Returned None))))"

definition handleReaddir :: handler where
  "handleReaddir fs s req =
     (case body req of
        None \<Rightarrow> (s, Panicked)
      | Some inp \<Rightarrow>
          (let ctx = newContext req;
               s = record_call (CallReadDir ctx (ih_NodeID (r_header req)) (ReadIn_Fh inp)
                                  (ReadIn_Offset inp) (ReadIn_Size inp)) s
           in case fs_ReadDir fs ctx (ih_NodeID (r_header req)) (ReadIn_Fh inp)
                     (ReadIn_Offset inp) (ReadIn_Size inp) of
                Inl err \<Rightarrow> (s, Returned (Some err))
              | Inr entries \<Rightarrow>
                  (let d = serializeDirents entries (ReadIn_Size inp)
                   in (sendResponse s req d, Returned None))))"

definition handleReaddirplus :: handler where
  "handleReaddirplus fs s req =
     (case body req of
        None \<Rightarrow> (s, Panicked)
      | Some inp \<Rightarrow>
          (let ctx = newContext req;
               s = record_call (CallReadDirPlus ctx (ih_NodeID (r_header req)) (ReadIn_Fh inp)
                                  (ReadIn_Offset inp) (ReadIn_Size inp)) s
           in case fs_ReadDirPlus fs ctx (ih_NodeID (r_header req)) (ReadIn_Fh inp)
                     (ReadIn_Offset inp) (ReadIn_Size inp) of
                Inl err \<Rightarrow> (s, Returned (Some err))
              | Inr entries \<Rightarrow>
                  (let d = serializeDirentsPlus entries (ReadIn_Size inp)
                   in (sendResponse s req d, Returned None))))"

definition handleReleasedir :: handler where
  "handleReleasedir fs s req =
     (case body req of
        None \<Rightarrow> (s, Panicked)
      | Some inp \<Rightarrow>
          (let ctx = newContext req;
               s = record_call (CallReleaseDir ctx (ih_NodeID (r_header req)) (ReleaseIn_Fh inp)) s
           in case fs_ReleaseDir fs ctx (ih_NodeID (r_header req)) (ReleaseIn_Fh inp) of
                Some err \<Rightarrow> (s, Returned (Some err))
              | None \<Rightarrow> (sendResponse s req [], Returned None)))"

definition handleStatfs :: handler where
  "handleStatfs fs s req =
     (let ctx = newContext req;
          s = record_call (CallStatFS ctx (ih_NodeID (r_header req))) s
      in case fs_StatFS fs ctx (ih_NodeID (r_header req)) of
           Inl err \<Rightarrow> (s, Returned (Some err))
         | Inr st \<Rightarrow>
             (let out = \<lparr> ks_Blocks = sf_Blocks st, ks_Bfree = sf_Bfree st,
                          ks_Bavail = sf_Bavail st, ks_Files = sf_Files st,
                          ks_Ffree = sf_Ffree st, ks_Bsize = sf_Bsize st,
                          ks_Namelen = sf_Namelen st, ks_Frsize = sf_Frsize st \<rparr>
              in (sendResponse s req (statfsOutBytes out), Returned None)))"

definition handleAccess :: handler where
  "handleAccess fs s req =
     (case body req of
        None \<Rightarrow> (s, Panicked)
      | Some inp \<Rightarrow>
          (let ctx = newContext req;
               s = record_call (CallAccess ctx (ih_NodeID (r_header req)) (AccessIn_Mask inp)) s
           in case fs_Access fs ctx (ih_NodeID (r_header req)) (AccessIn_Mask inp) of
                Some err \<Rightarrow> (s, Returned (Some err))
              | None \<Rightarrow> (sendResponse s req [], Returned None)))"

definition handleFlush :: handler where
  "handleFlush fs s req = (sendResponse s req [], Returned None)"

definition handleInterrupt :: handler where
  "handleInterrupt fs s req = (s, Returned None)"

text \<open>The \<open>handlers\<close> map: \<open>None\<close> is a missing key.\<close>

definition handlers :: "u32 \<Rightarrow> handler option" where
  "handlers opcode =
     (if opcode = OpInit then Some handleInit
      else if opcode = OpDestroy then Some handleDestroy
      else if opcode = OpLookup then Some handleLookup
      else if opcode = OpForget then Some handleForget
      else if opcode = OpBatchForget then Some handleBatchForget
      else if opcode = OpGetattr then Some handleGetattr
      else if opcode = OpReadlink then Some handleReadlink
      else if opcode = OpOpen then Some handleOpen
      else if opcode = OpRead then Some handleRead
      else if opcode = OpRelease then Some handleRelease
      else if opcode = OpOpendir then Some handleOpendir
      else if opcode = OpReaddir then Some handleReaddir
      else if opcode = OpReaddirplus then Some handleReaddirplus
      else if opcode = OpReleasedir then Some handleReleasedir
      else if opcode = OpStatfs then Some handleStatfs
      else if opcode = OpAccess then Some handleAccess
      else if opcode = OpFlush then Some handleFlush
      else if opcode = OpInterrupt then Some handleInterrupt
      else None)"

section \<open>Dispatcher\<close>

text \<open>
  \<open>handleRequest\<close>: the final state and whether the goroutine panicked. The server
  runs one goroutine per request; the model follows a single request from the state it
  finds to the state it leaves (the writes to the device are serialized by the mutex of
  the connection, so the frames of one request are never interleaved with others).
\<close>

definition handleRequest :: "filesystem \<Rightarrow> server \<Rightarrow> request \<Rightarrow> server \<times> bool" where
  "handleRequest fs s req =
     (let opcode = ih_Opcode (r_header req)
      in if isWriteOp opcode then (sendError s req (Errno EROFS), False)
         else (case handlers opcode of
                 None \<Rightarrow> (sendError s req (Errno ENOSYS), False)
               | Some h \<Rightarrow>
                   (case h fs s req of
                      (s', Panicked) \<Rightarrow> (s', True)
                    | (s', Returned (Some err)) \<Rightarrow> (sendError s' req err, False)
                    | (s', Returned None) \<Rightarrow> (s', False))))"

section \<open>Mounting, and the filesystem of the README\<close>

text \<open>\<open>Mount\<close>, after the mount collaborator has produced the descriptor: the defaults
  of the options and the fresh server.\<close>

definition DefaultMaxReadahead :: u32 where "DefaultMaxReadahead = 128 * 1024"
definition DefaultMaxWrite :: u32 where "DefaultMaxWrite = 128 * 1024"
definition DefaultMaxBackground :: u16 where "DefaultMaxBackground = 12"

definition Mount :: "mount_options \<Rightarrow> server" where
  "Mount opts =
     (let opts = (if mo_MaxReadahead opts = 0 then opts\<lparr>mo_MaxReadahead := DefaultMaxReadahead\<rparr>
                  else opts);
          opts = (if mo_MaxWrite opts = 0 then opts\<lparr>mo_MaxWrite := DefaultMaxWrite\<rparr> else opts);
          opts = (if mo_MaxBackground opts = 0
                  then opts\<lparr>mo_MaxBackground := DefaultMaxBackground\<rparr> else opts)
      in \<lparr> s_conn = \<lparr> c_protoMajor = 0, c_protoMinor = 0, c_written = [] \<rparr>,
           s_config = None, s_opts = opts, s_initialized = False, s_destroyed = False,
           s_calls = [] \<rparr>)"

text \<open>The zero \<open>MountOptions\<close> (\<open>Mount\<close> with \<open>opts == nil\<close>).\<close>

definition zero_options :: mount_options where
  "zero_options = \<lparr> mo_Debug = False, mo_MaxReadahead = 0, mo_MaxWrite = 0,
                     mo_MaxBackground = 0 \<rparr>"

text \<open>The zero \<open>time.Time\<close>: \<open>Unix()\<close> is \<open>-62135596800\<close>, \<open>Nanosecond()\<close> is 0.\<close>

definition zero_Time :: gotime where
  "zero_Time = \<lparr> t_Unix = - 62135596800, t_Nanosecond = 0 \<rparr>"

definition zero_Attr :: attr where
  "zero_Attr = \<lparr> a_Ino = 0, a_Size = 0, a_Blocks = 0, a_Atime = zero_Time, a_Mtime = zero_Time,
                 a_Ctime = zero_Time, a_Mode = 0, a_Nlink = 0, a_Uid = 0, a_Gid = 0,
                 a_Rdev = 0, a_Blksize = 0 \<rparr>"

definition time_Minute :: u64 where "time_Minute = 60 * time_Second"
definition ENOTDIR :: u64 where "ENOTDIR = 20"
definition RootInode :: u64 where "RootInode = 1"

text \<open>\<open>MyFS\<close> of the README's quick start: \<open>Lookup\<close>, \<open>GetAttr\<close>, \<open>ReadDir\<close> and
  \<open>Read\<close> as written there (names and contents as ASCII bytes; \<open>Read\<close> for the
  offsets \<open>0 \<le> offset\<close> the kernel sends), every other method from \<open>FilesystemBase\<close>.\<close>

definition hello_txt :: "byte list" where
  "hello_txt = [104, 101, 108, 108, 111, 46, 116, 120, 116]"

definition hello_content :: "byte list" where
  "hello_content = [72, 101, 108, 108, 111, 44, 32, 87, 111, 114, 108, 100, 33]"

definition hello_attr :: attr where
  "hello_attr = zero_Attr\<lparr> a_Ino := 2, a_Mode := 420, a_Nlink := 1, a_Size := 13 \<rparr>"

definition MyFS :: filesystem where
  "MyFS =
     \<lparr> fs_Init = (\<lambda>ctx cfg. None),
       fs_Lookup = (\<lambda>ctx parent name.
          if parent = RootInode \<and> name = hello_txt
          then Inr \<lparr> e_Ino = 2, e_Generation = 0, e_Attr = hello_attr,
                     e_AttrTimeout = time_Minute, e_EntryTimeout = time_Minute \<rparr>
          else Inl (Errno ENOENT)),
       fs_GetAttr = (\<lambda>ctx ino fh.
          if ino = RootInode
          then Inr (zero_Attr\<lparr> a_Ino := ino, a_Mode := os_ModeDir OR 493, a_Nlink := 2 \<rparr>)
          else if ino = 2 then Inr hello_attr
          else Inl (Errno ENOENT)),
       fs_ReadLink = (\<lambda>ctx ino. Inl (Errno ENOSYS)),
       fs_Open = (\<lambda>ctx ino flags. Inr \<lparr> or_Handle = 0, or_Flags = 0 \<rparr>),
       fs_Read = (\<lambda>ctx ino fh offset size.
          if ino \<noteq> 2 then Inl (Errno ENOENT)
          else if int (length hello_content) \<le> sint offset then Inr []
          else (let end = min (sint offset + uint size) (int (length hello_content))
                in Inr (take (nat end - nat (sint offset)) (drop (nat (sint offset)) hello_content)))),
       fs_Release = (\<lambda>ctx ino fh. None),
       fs_OpenDir = (\<lambda>ctx ino flags. Inr \<lparr> or_Handle = 0, or_Flags = 0 \<rparr>),
       fs_ReadDir = (\<lambda>ctx ino fh offset size.
          if ino \<noteq> RootInode then Inl (Errno ENOTDIR)
          else Inr (filter (\<lambda>e. sint (de_Offset e) > sint offset)
                 [ \<lparr> de_Ino = RootInode, de_Offset = 1, de_Type = 4, de_Name = [46] \<rparr>,
                   \<lparr> de_Ino = RootInode, de_Offset = 2, de_Type = 4, de_Name = [46, 46] \<rparr>,
                   \<lparr> de_Ino = 2, de_Offset = 3, de_Type = 8, de_Name = hello_txt \<rparr> ])),
       fs_ReadDirPlus = (\<lambda>ctx ino fh offset size. Inl (Errno ENOSYS)),
       fs_ReleaseDir = (\<lambda>ctx ino fh. None),
       fs_StatFS = (\<lambda>ctx ino. Inr \<lparr> sf_Blocks = 0, sf_Bfree = 0, sf_Bavail = 0, sf_Files = 0,
                                    sf_Ffree = 0, sf_Bsize = 4096, sf_Namelen = 255,
                                    sf_Frsize = 4096 \<rparr>),
       fs_Access = (\<lambda>ctx ino mask. None) \<rparr>"

text \<open>The bytes of a header as the kernel sends them, to write requests down.\<close>

definition in_header_bytes :: "in_header \<Rightarrow> byte list" where
  "in_header_bytes h = le32 (ih_Len h) @ le32 (ih_Opcode h) @ le64 (ih_Unique h)
     @ le64 (ih_NodeID h) @ le32 (ih_Uid h) @ le32 (ih_Gid h) @ le32 (ih_Pid h)
     @ le32 (ih_Padding h)"


text \<open>\<open>newBufferPool\<close>: the size of the buffers of the pool, at least
  \<open>MinBufferSize\<close>; \<open>Mount\<close> asks for \<open>MaxWrite + InHeaderSize + 4096\<close> bytes.\<close>

definition MinBufferSize :: nat where "MinBufferSize = 8192"

definition newBufferPool :: "nat \<Rightarrow> nat" where
  "newBufferPool sz = (if sz < MinBufferSize then MinBufferSize else sz)"

definition bufPool_size :: "server \<Rightarrow> nat" where
  "bufPool_size s = newBufferPool (unat (mo_MaxWrite (s_opts s)) + InHeaderSize + 4096)"

text \<open>\<open>readRequest\<close> on a pool buffer \<open>buf\<close> when the device delivers \<open>msg\<close>
  (\<open>length msg \<le> length buf\<close>): \<open>None\<close> is the error \<open>io.ErrUnexpectedEOF\<close>.\<close>

definition readRequest :: "byte list \<Rightarrow> byte list \<Rightarrow> request option" where
  "readRequest buf msg =
     (let n = length msg;
          buf = msg @ drop n buf
      in if n < InHeaderSize then None
         else Some (newRequest (take n buf) (drop n buf)))"


text \<open>The frame \<open>sendResponse\<close> writes, in closed form (\<open>sendResponse_eq\<close> below).\<close>

definition success_frame :: "request \<Rightarrow> byte list \<Rightarrow> byte list" where
  "success_frame req payload =
     le32 (of_nat (16 + length payload)) @ le32 0 @ le64 (ih_Unique (r_header req)) @ payload"


text \<open>The fields of \<open>proto.InitOut\<close> as the kernel reads them from the payload of a
  frame, \<open>response.payload\<close>, and the frames a step has written to the device.\<close>

definition InitOut_Major :: "byte list \<Rightarrow> u32" where "InitOut_Major p = u32_at p 0"
definition InitOut_Minor :: "byte list \<Rightarrow> u32" where "InitOut_Minor p = u32_at p 4"
definition InitOut_Flags :: "byte list \<Rightarrow> u32" where "InitOut_Flags p = u32_at p 12"
definition InitOut_Flags2 :: "byte list \<Rightarrow> u32" where "InitOut_Flags2 p = u32_at p 32"
definition InitOut_MaxStackDepth :: "byte list \<Rightarrow> u32" where
  "InitOut_MaxStackDepth p = u32_at p 36"

definition response_payload :: "byte list \<Rightarrow> byte list" where
  "response_payload f = drop OutHeaderSize f"

definition frames_written :: "server \<Rightarrow> server \<Rightarrow> byte list list" where
  "frames_written s s' = drop (length (c_written (s_conn s))) (c_written (s_conn s'))"

text \<open>The capability set an \<open>InitOut\<close> advertises: bits 0 to 31 travel in \<open>flags\<close>,
  bits 32 to 63 in \<open>flags2\<close>.\<close>

definition advertised_caps :: "byte list \<Rightarrow> u64" where
  "advertised_caps p = ucast (InitOut_Flags p) OR push_bit 32 (ucast (InitOut_Flags2 p))"


text \<open>The three outcomes of \<open>handleInit\<close> in closed form: the reply to a foreign major
  version, and after the two version checks the configuration, the state in which
  \<open>Init\<close> of the filesystem is called, and the reply (\<open>handleInit_major_mismatch\<close> and
  \<open>handleInit_negotiate\<close> below relate them to \<open>handleInit\<close>).\<close>

definition init_reply_mismatch :: init_out where
  "init_reply_mismatch =
     \<lparr> io_Major = FuseKernelVersion, io_Minor = FuseKernelMinorVersion,
       io_MaxReadahead = 0, io_Flags = 0, io_MaxBackground = 0,
       io_CongestionThreshold = 0, io_MaxWrite = 0, io_TimeGran = 0,
       io_MaxPages = 0, io_MapAlignment = 0, io_Flags2 = 0, io_MaxStackDepth = 0 \<rparr>"

definition init_config :: "server \<Rightarrow> byte list \<Rightarrow> config" where
  "init_config s inp =
     \<lparr> cf_ProtoMajor = InitIn_Major inp,
       cf_ProtoMinor = min (InitIn_Minor inp) FuseKernelMinorVersion,
       cf_MaxReadahead = min (InitIn_MaxReadahead inp) (mo_MaxReadahead (s_opts s)),
       cf_MaxWrite = mo_MaxWrite (s_opts s), cf_MaxPages = DefaultMaxPages \<rparr>"

definition init_state :: "server \<Rightarrow> request \<Rightarrow> byte list \<Rightarrow> server" where
  "init_state s req inp =
     s\<lparr> s_conn := (s_conn s)\<lparr> c_protoMajor := InitIn_Major inp,
                                c_protoMinor := min (InitIn_Minor inp) FuseKernelMinorVersion \<rparr>,
        s_config := Some (init_config s inp),
        s_calls := s_calls s @ [CallInit (newContext req) (init_config s inp)] \<rparr>"

definition init_reply :: "server \<Rightarrow> byte list \<Rightarrow> init_out" where
  "init_reply s inp =
     \<lparr> io_Major = FuseKernelVersion,
       io_Minor = min (InitIn_Minor inp) FuseKernelMinorVersion,
       io_MaxReadahead = min (InitIn_MaxReadahead inp) (mo_MaxReadahead (s_opts s)),
       io_Flags = our_flags AND InitIn_Flags inp,
       io_MaxBackground = mo_MaxBackground (s_opts s),
       io_CongestionThreshold = mo_MaxBackground (s_opts s) * 3 div 4,
       io_MaxWrite = mo_MaxWrite (s_opts s), io_TimeGran = DefaultTimeGran,
       io_MaxPages = DefaultMaxPages, io_MapAlignment = 0, io_Flags2 = 0,
       io_MaxStackDepth = 0 \<rparr>"


text \<open>The way back from a \<open>(sec, nsec)\<close> pair to a duration, in the words of the
  specification, \<open>sec * 1s + nsec * 1ns\<close>, computed as Go computes a \<open>time.Duration\<close>
  (in 64 bits).\<close>

definition timespecToDuration :: "u64 \<Rightarrow> u32 \<Rightarrow> u64" where
  "timespecToDuration sec nsec = sec * time_Second + ucast nsec * time_Nanosecond"


text \<open>
  For READDIR, in the words of the specification: the padded size of an entry,
  \<open>(24 + namelen + 7) & ~7\<close>, and the number of entries of the longest prefix whose
  padded records fit the budget \<open>B\<close> together (entries are taken in order until the
  next one would exceed what is left).
\<close>

definition dirent_padded :: "dir_entry \<Rightarrow> nat" where
  "dirent_padded e = pad8 (24 + length (de_Name e))"

fun fitting :: "nat \<Rightarrow> dir_entry list \<Rightarrow> nat" where
  "fitting B [] = 0"
| "fitting B (e # es) =
     (if dirent_padded e \<le> B then Suc (fitting (B - dirent_padded e) es) else 0)"

section \<open>Byte strings: encoding and decoding\<close>

lemma le_nat_le_bytes: "le_nat (le_bytes k v) = v mod 256 ^ k"
proof (induction k arbitrary: v)
  case 0 show ?case by simp
next
  case (Suc k)
  have "unat (of_nat (v mod 256) :: byte) = v mod 256"
    by (simp add: unat_of_nat)
  then show ?case using Suc
    by (simp add: mod_mult2_eq)
qed

lemma length_le_bytes [simp]: "length (le_bytes k v) = k"
  by (induction k arbitrary: v) auto

lemma le_bytes2:
  "le_bytes 2 v = [of_nat (v mod 256), of_nat (v div 256 mod 256)]"
proof -
  have "le_bytes (Suc (Suc 0)) v = [of_nat (v mod 256), of_nat (v div 256 mod 256)]"
    by simp
  then show ?thesis by (simp only: numeral_2_eq_2)
qed

lemma le_bytes4:
  "le_bytes 4 v = [of_nat (v mod 256), of_nat (v div 256 mod 256),
                   of_nat (v div 65536 mod 256), of_nat (v div 16777216 mod 256)]"
proof -
  have "le_bytes (Suc (Suc (Suc (Suc 0)))) v =
          [of_nat (v mod 256), of_nat (v div 256 mod 256),
           of_nat (v div 65536 mod 256), of_nat (v div 16777216 mod 256)]"
    by (simp flip: div_mult2_eq)
  moreover have "(4::nat) = Suc (Suc (Suc (Suc 0)))" by simp
  ultimately show ?thesis by (simp only:)
qed

lemma le_bytes8:
  "le_bytes 8 v = [of_nat (v mod 256), of_nat (v div 256 mod 256),
                   of_nat (v div 65536 mod 256), of_nat (v div 16777216 mod 256),
                   of_nat (v div 4294967296 mod 256), of_nat (v div 1099511627776 mod 256),
                   of_nat (v div 281474976710656 mod 256),
                   of_nat (v div 72057594037927936 mod 256)]"
proof -
  have "le_bytes (Suc (Suc (Suc (Suc (Suc (Suc (Suc (Suc 0)))))))) v =
          [of_nat (v mod 256), of_nat (v div 256 mod 256),
           of_nat (v div 65536 mod 256), of_nat (v div 16777216 mod 256),
           of_nat (v div 4294967296 mod 256), of_nat (v div 1099511627776 mod 256),
           of_nat (v div 281474976710656 mod 256),
           of_nat (v div 72057594037927936 mod 256)]"
    by (simp flip: div_mult2_eq)
  moreover have "(8::nat) = Suc (Suc (Suc (Suc (Suc (Suc (Suc (Suc 0)))))))" by simp
  ultimately show ?thesis by (simp only:)
qed

lemmas le_eval = le16_def le32_def le64_def le_bytes2 le_bytes4 le_bytes8

lemma length_le16 [simp]: "length (le16 v) = 2" by (simp add: le16_def)
lemma length_le32 [simp]: "length (le32 v) = 4" by (simp add: le32_def)
lemma length_le64 [simp]: "length (le64 v) = 8" by (simp add: le64_def)

lemma put_seg:
  "length xs = off \<Longrightarrow> length ys = length bs \<Longrightarrow> put (xs @ ys @ zs) off bs = xs @ bs @ zs"
  by (simp add: put_def)

lemma length_put: "off + length bs \<le> length d \<Longrightarrow> length (put d off bs) = length d"
  by (simp add: put_def)

lemma u32_at_le32: "length xs = off \<Longrightarrow> u32_at (xs @ le32 v @ zs) off = v"
proof -
  have "unat v < 2 ^ 32" using unsigned_less [of v] by simp
  then show "length xs = off \<Longrightarrow> ?thesis"
    by (simp add: u32_at_def le32_def le_nat_le_bytes)
qed

lemma u64_at_le64: "length xs = off \<Longrightarrow> u64_at (xs @ le64 v @ zs) off = v"
proof -
  have "unat v < 2 ^ 64" using unsigned_less [of v] by simp
  then show "length xs = off \<Longrightarrow> ?thesis"
    by (simp add: u64_at_def le64_def le_nat_le_bytes)
qed

lemma u16_at_le16: "length xs = off \<Longrightarrow> u16_at (xs @ le16 v @ zs) off = v"
proof -
  have "unat v < 2 ^ 16" using unsigned_less [of v] by simp
  then show "length xs = off \<Longrightarrow> ?thesis"
    by (simp add: u16_at_def le16_def le_nat_le_bytes)
qed

section \<open>Response frames in closed form\<close>

lemma newErrorResponse_eq:
  "newErrorResponse req errno = le32 16 @ le32 errno @ le64 (ih_Unique (r_header req))"
proof -
  have m: "make_bytes OutHeaderSize = [] @ replicate 4 0 @ (replicate 4 0 @ replicate 8 0)"
    by (simp add: make_bytes_def OutHeaderSize_def flip: replicate_add)
  show ?thesis
    unfolding newErrorResponse_def Let_def m PutUint32_def PutUint64_def
    apply (subst put_seg; simp?)
    apply (subst put_seg [where xs = "le32 _" and ys = "replicate 4 0", simplified]; simp?)
    apply (subst put_seg [where xs = "le32 _ @ le32 _" and ys = "replicate 8 0" and zs = "[]", simplified]; simp?)
    apply (simp add: OutHeaderSize_def)
    done
qed


lemma newResponse_eq:
  "newResponse req n =
     le32 (of_nat (16 + n)) @ le32 0 @ le64 (ih_Unique (r_header req)) @ replicate n 0"
proof -
  have m: "make_bytes (OutHeaderSize + n)
             = [] @ replicate 4 0 @ (replicate 4 0 @ replicate 8 0 @ replicate n 0)"
    by (simp add: make_bytes_def OutHeaderSize_def flip: replicate_add)
  show ?thesis
    unfolding newResponse_def Let_def m PutUint32_def PutUint64_def
    apply (subst put_seg; simp?)
    apply (subst put_seg [where xs = "le32 _" and ys = "replicate 4 0", simplified]; simp?)
    apply (subst put_seg [where xs = "le32 _ @ le32 _" and ys = "replicate 8 0", simplified]; simp?)
    apply (simp add: OutHeaderSize_def)
    done
qed

lemma sendResponse_eq:
  "sendResponse s req payload =
     s\<lparr>s_conn := (s_conn s)\<lparr>c_written := c_written (s_conn s) @ [success_frame req payload]\<rparr>\<rparr>"
proof -
  have "copy_at (newResponse req (length payload)) OutHeaderSize payload
          = success_frame req payload"
    unfolding newResponse_eq copy_at_def success_frame_def
    using put_seg [where xs = "le32 (of_nat (16 + length payload)) @ le32 0 @ le64 (ih_Unique (r_header req))"
        and ys = "replicate (length payload) 0" and zs = "[]" and bs = payload and off = 16]
    by (simp add: OutHeaderSize_def)
  moreover have "length payload = 0 \<Longrightarrow> newResponse req (length payload) = success_frame req payload"
    by (simp add: newResponse_eq success_frame_def)
  ultimately show ?thesis
    by (auto simp: sendResponse_def Let_def writeResponse_def)
qed

lemma sendError_eq:
  "sendError s req err =
     (if ih_Opcode (r_header req) = OpForget \<or> ih_Opcode (r_header req) = OpBatchForget then s
      else s\<lparr>s_conn := (s_conn s)\<lparr>c_written := c_written (s_conn s)
              @ [le32 16 @ le32 (toErrno (Some err)) @ le64 (ih_Unique (r_header req))]\<rparr>\<rparr>)"
  by (simp add: sendError_def Let_def writeResponse_def newErrorResponse_eq)

section \<open>Write operations are rejected\<close>

lemma isWriteOp_not_forget:
  "isWriteOp op \<Longrightarrow> op \<noteq> OpForget \<and> op \<noteq> OpBatchForget"
  by (auto simp: isWriteOp_def opcode_defs)

text \<open>
  C1. A request whose opcode is one of SETATTR, SYMLINK, MKNOD, MKDIR, UNLINK, RMDIR, RENAME,
  RENAME2, LINK, WRITE, SETXATTR, REMOVEXATTR, CREATE, FALLOCATE, COPY_FILE_RANGE, TMPFILE
  is answered by \<open>handleRequest\<close> with exactly one frame, the error frame carrying
  \<open>-EROFS\<close> (\<open>-30\<close>) and the request's \<open>unique\<close>; the goroutine does not
  panic, nothing else of the server changes, and the trace of filesystem calls is the
  one before the request: no method of the filesystem is invoked.
\<close>

theorem write_ops_rejected:
  assumes "ih_Opcode (r_header req) \<in>
             {OpSetattr, OpSymlink, OpMknod, OpMkdir, OpUnlink, OpRmdir, OpRename, OpRename2,
              OpLink, OpWrite, OpSetxattr, OpRemovexattr, OpCreate, OpFallocate,
              OpCopyFileRange, OpTmpfile}"
  shows "handleRequest fs s req =
           (s\<lparr>s_conn := (s_conn s)\<lparr>c_written := c_written (s_conn s)
                 @ [newErrorResponse req (toErrno (Some (Errno EROFS)))]\<rparr>\<rparr>, False)
         \<and> sint (OutHeader_Error (newErrorResponse req (toErrno (Some (Errno EROFS))))) = - 30
         \<and> OutHeader_Unique (newErrorResponse req (toErrno (Some (Errno EROFS))))
             = ih_Unique (r_header req)
         \<and> s_calls (fst (handleRequest fs s req)) = s_calls s"
proof -
  from assms have w: "isWriteOp (ih_Opcode (r_header req))"
    by (auto simp: isWriteOp_def)
  have e: "toErrno (Some (Errno EROFS)) = - 30"
    by (simp add: toErrno_def EROFS_def)
  have h: "handleRequest fs s req = (sendError s req (Errno EROFS), False)"
    using w by (simp add: handleRequest_def Let_def)
  have 1: "sint (OutHeader_Error (newErrorResponse req (- 30))) = - 30"
    unfolding OutHeader_Error_def newErrorResponse_eq
    using u32_at_le32 [of "le32 16" 4 "- 30" "le64 (ih_Unique (r_header req))"] by simp
  have 2: "OutHeader_Unique (newErrorResponse req (- 30)) = ih_Unique (r_header req)"
    unfolding OutHeader_Unique_def newErrorResponse_eq
    using u64_at_le64 [of "le32 16 @ le32 (- 30)" 8 _ "[]"] by simp
  show ?thesis
    using isWriteOp_not_forget [OF w] 1 2
    by (simp add: h e sendError_eq newErrorResponse_eq)
qed


lemma u32_at_le32_hd: "u32_at (le32 v @ zs) 0 = v"
  using u32_at_le32 [of "[]" 0 v zs] by simp

lemma newRequest_in_header_bytes:
  "newRequest (in_header_bytes h @ b) rest
     = \<lparr> r_header = h, r_data = in_header_bytes h @ b, r_spare = rest \<rparr>"
proof -
  let ?d = "(in_header_bytes h @ b) @ rest"
  have "u32_at ?d 0 = ih_Len h"
    using u32_at_le32 [of "[]" 0] by (simp add: in_header_bytes_def)
  moreover have "u32_at ?d 4 = ih_Opcode h"
    using u32_at_le32 [of "le32 (ih_Len h)" 4] by (simp add: in_header_bytes_def)
  moreover have "u64_at ?d 8 = ih_Unique h"
    using u64_at_le64 [of "le32 (ih_Len h) @ le32 (ih_Opcode h)" 8]
    by (simp add: in_header_bytes_def)
  moreover have "u64_at ?d 16 = ih_NodeID h"
    using u64_at_le64 [of "le32 (ih_Len h) @ le32 (ih_Opcode h) @ le64 (ih_Unique h)" 16]
    by (simp add: in_header_bytes_def)
  moreover have "u32_at ?d 24 = ih_Uid h"
    using u32_at_le32 [of "le32 (ih_Len h) @ le32 (ih_Opcode h) @ le64 (ih_Unique h)
       @ le64 (ih_NodeID h)" 24]
    by (simp add: in_header_bytes_def)
  moreover have "u32_at ?d 28 = ih_Gid h"
    using u32_at_le32 [of "le32 (ih_Len h) @ le32 (ih_Opcode h) @ le64 (ih_Unique h)
       @ le64 (ih_NodeID h) @ le32 (ih_Uid h)" 28]
    by (simp add: in_header_bytes_def)
  moreover have "u32_at ?d 32 = ih_Pid h"
    using u32_at_le32 [of "le32 (ih_Len h) @ le32 (ih_Opcode h) @ le64 (ih_Unique h)
       @ le64 (ih_NodeID h) @ le32 (ih_Uid h) @ le32 (ih_Gid h)" 32]
    by (simp add: in_header_bytes_def)
  moreover have "u32_at ?d 36 = ih_Padding h"
    using u32_at_le32 [of "le32 (ih_Len h) @ le32 (ih_Opcode h) @ le64 (ih_Unique h)
       @ le64 (ih_NodeID h) @ le32 (ih_Uid h) @ le32 (ih_Gid h) @ le32 (ih_Pid h)" 36]
    by (simp add: in_header_bytes_def)
  ultimately show ?thesis
    unfolding newRequest_def by simp
qed

lemmas newRequest_in_header_bytes0 = newRequest_in_header_bytes [where b = "[]", simplified]

lemma length_in_header_bytes [simp]: "length (in_header_bytes h) = 40"
  by (simp add: in_header_bytes_def)

theorem write_ops_rejected_witness:
  "ih_Opcode (r_header (newRequest (in_header_bytes \<lparr> ih_Len = 40, ih_Opcode = OpWrite,
        ih_Unique = 42, ih_NodeID = 2, ih_Uid = 0, ih_Gid = 0, ih_Pid = 1, ih_Padding = 0 \<rparr>)
        (replicate 135168 0)))
     \<in> {OpSetattr, OpSymlink, OpMknod, OpMkdir, OpUnlink, OpRmdir, OpRename, OpRename2,
              OpLink, OpWrite, OpSetxattr, OpRemovexattr, OpCreate, OpFallocate,
              OpCopyFileRange, OpTmpfile}
   \<and> s_calls (fst (handleRequest MyFS (Mount zero_options)
        (newRequest (in_header_bytes \<lparr> ih_Len = 40, ih_Opcode = OpWrite,
        ih_Unique = 42, ih_NodeID = 2, ih_Uid = 0, ih_Gid = 0, ih_Pid = 1, ih_Padding = 0 \<rparr>)
        (replicate 135168 0)))) = []
   \<and> c_written (s_conn (fst (handleRequest MyFS (Mount zero_options)
        (newRequest (in_header_bytes \<lparr> ih_Len = 40, ih_Opcode = OpWrite,
        ih_Unique = 42, ih_NodeID = 2, ih_Uid = 0, ih_Gid = 0, ih_Pid = 1, ih_Padding = 0 \<rparr>)
        (replicate 135168 0)))))
      = [[16, 0, 0, 0, 226, 255, 255, 255, 42, 0, 0, 0, 0, 0, 0, 0]]"
proof -
  let ?req = "newRequest (in_header_bytes \<lparr> ih_Len = 40, ih_Opcode = OpWrite,
        ih_Unique = 42, ih_NodeID = 2, ih_Uid = 0, ih_Gid = 0, ih_Pid = 1, ih_Padding = 0 \<rparr>)
        (replicate 135168 0)"
  have h: "ih_Opcode (r_header ?req)
     \<in> {OpSetattr, OpSymlink, OpMknod, OpMkdir, OpUnlink, OpRmdir, OpRename, OpRename2,
              OpLink, OpWrite, OpSetxattr, OpRemovexattr, OpCreate, OpFallocate,
              OpCopyFileRange, OpTmpfile}"
    by (simp add: newRequest_in_header_bytes0)
  have f: "newErrorResponse ?req (toErrno (Some (Errno EROFS)))
             = [16, 0, 0, 0, 226, 255, 255, 255, 42, 0, 0, 0, 0, 0, 0, 0]"
    by (simp add: newRequest_in_header_bytes0 newErrorResponse_eq toErrno_def EROFS_def
        le_eval)
  show ?thesis
    using h write_ops_rejected [OF h, of MyFS "Mount zero_options"]
    by (simp add: f Mount_def Let_def)
qed

section \<open>The header of every response frame\<close>

lemma length_success_frame: "length (success_frame req payload) = 16 + length payload"
  by (simp add: success_frame_def)

lemma OutHeader_success_frame:
  "OutHeader_Len (success_frame req payload) = of_nat (16 + length payload)"
  "OutHeader_Error (success_frame req payload) = 0"
  "OutHeader_Unique (success_frame req payload) = ih_Unique (r_header req)"
proof -
  show "OutHeader_Len (success_frame req payload) = of_nat (16 + length payload)"
    unfolding OutHeader_Len_def success_frame_def by (rule u32_at_le32_hd)
  show "OutHeader_Error (success_frame req payload) = 0"
    unfolding OutHeader_Error_def success_frame_def
    using u32_at_le32 [of "le32 (of_nat (16 + length payload))" 4 0] by simp
  show "OutHeader_Unique (success_frame req payload) = ih_Unique (r_header req)"
    unfolding OutHeader_Unique_def success_frame_def
    using u64_at_le64 [of "le32 (of_nat (16 + length payload)) @ le32 0" 8] by simp
qed

lemma OutHeader_error_frame:
  "OutHeader_Len (le32 16 @ le32 errno @ le64 u) = 16"
  "OutHeader_Error (le32 16 @ le32 errno @ le64 u) = errno"
  "OutHeader_Unique (le32 16 @ le32 errno @ le64 u) = u"
proof -
  show "OutHeader_Len (le32 16 @ le32 errno @ le64 u) = 16"
    unfolding OutHeader_Len_def by (rule u32_at_le32_hd)
  show "OutHeader_Error (le32 16 @ le32 errno @ le64 u) = errno"
    unfolding OutHeader_Error_def
    using u32_at_le32 [of "le32 16" 4 errno "le64 u"] by simp
  show "OutHeader_Unique (le32 16 @ le32 errno @ le64 u) = u"
    unfolding OutHeader_Unique_def
    using u64_at_le64 [of "le32 16 @ le32 errno" 8 u "[]"] by simp
qed

lemma sint_word_of_int_u32: "sint (word_of_int k :: u32) = signed_take_bit 31 k"
  by (simp add: sint_sbintrunc')

lemma sint_neg_ucast_errno:
  fixes e :: u64
  assumes "unat e < 2 ^ 31"
  shows "sint (- (ucast e :: u32)) = - int (unat e)"
proof -
  have u: "(ucast e :: u32) = word_of_int (uint e)"
    by transfer simp
  have "int (unat e) < int (2 ^ 31)"
    using assms by (rule iffD2 [OF of_nat_less_iff])
  then have b: "uint e < 2 ^ 31" "0 \<le> uint e"
    by simp_all
  have "- (ucast e :: u32) = word_of_int (- uint e)"
    by (subst u) simp
  then have "sint (- (ucast e :: u32)) = signed_take_bit 31 (- uint e)"
    by (simp only: sint_word_of_int_u32)
  also have "\<dots> = - uint e"
  proof (rule signed_take_bit_int_eq_self)
    show "- (2 ^ 31) \<le> - uint e" using b by simp
    have "(0::int) < 2 ^ 31" by simp
    then show "- uint e < 2 ^ 31" using uint_ge_0 [of e] by linarith
  qed
  finally show ?thesis by simp
qed

lemma unat_of_nat_u32: "n < 2 ^ 32 \<Longrightarrow> unat (of_nat n :: u32) = n"
  by (simp add: unat_of_nat)

lemma toErrno_nonpositive:
  assumes "\<forall>e. err = Errno e \<longrightarrow> unat e < 2 ^ 31"
  shows "sint (toErrno (Some err)) \<le> 0"
proof (cases err)
  case (Errno e)
  with assms have "unat e < 2 ^ 31" by simp
  from sint_neg_ucast_errno [OF this] Errno show ?thesis
    by (simp add: toErrno_def)
qed (simp_all add: toErrno_def errno_defs)

text \<open>
  C8, as amended. Every frame built for a request starts with an \<open>OutHeader\<close> whose
  \<open>unique\<close> is the request's: \<open>sendResponse\<close> always writes one frame, of
  \<open>16 + length payload\<close> bytes with \<open>error = 0\<close>; \<open>sendError\<close> writes the frame of
  \<open>newErrorResponse\<close>, exactly 16 bytes with \<open>len = 16\<close>, for every opcode other than
  FORGET and BATCH_FORGET, and nothing for these two. The \<open>len\<close> field of a success frame
  is the frame length modulo \<open>2 ^ 32\<close> (it is stored as \<open>uint32(size)\<close>), hence the frame
  length whenever that is below \<open>2 ^ 32\<close>. The \<open>error\<close> field of an error frame is
  \<open>-int32(errno)\<close>: zero or negative whenever the error, if it is a \<open>syscall.Errno\<close>,
  is below \<open>2 ^ 31\<close>, and then exactly the negated errno.
\<close>

theorem response_frames_header:
  "(let ok = last (c_written (s_conn (sendResponse s req payload)));
        er = newErrorResponse req (toErrno (Some err))
    in c_written (s_conn (sendResponse s req payload)) = c_written (s_conn s) @ [ok]
     \<and> (ih_Opcode (r_header req) \<noteq> OpForget \<and> ih_Opcode (r_header req) \<noteq> OpBatchForget \<longrightarrow>
          c_written (s_conn (sendError s req err)) = c_written (s_conn s) @ [er])
     \<and> (ih_Opcode (r_header req) = OpForget \<or> ih_Opcode (r_header req) = OpBatchForget \<longrightarrow>
          sendError s req err = s)
     \<and> length ok = 16 + length payload
     \<and> OutHeader_Unique ok = ih_Unique (r_header req)
     \<and> OutHeader_Error ok = 0
     \<and> unat (OutHeader_Len ok) = length ok mod 2 ^ 32
     \<and> (length ok < 2 ^ 32 \<longrightarrow> unat (OutHeader_Len ok) = length ok)
     \<and> length er = 16
     \<and> OutHeader_Unique er = ih_Unique (r_header req)
     \<and> unat (OutHeader_Len er) = length er
     \<and> OutHeader_Error er = toErrno (Some err)
     \<and> ((\<forall>e. err = Errno e \<longrightarrow> unat e < 2 ^ 31) \<longrightarrow> sint (OutHeader_Error er) \<le> 0)
     \<and> (\<forall>e. err = Errno e \<and> unat e < 2 ^ 31 \<longrightarrow> sint (OutHeader_Error er) = - int (unat e)))"
proof -
  let ?ok = "success_frame req payload"
  let ?er = "le32 16 @ le32 (toErrno (Some err)) @ le64 (ih_Unique (r_header req))"
  have ok: "last (c_written (s_conn (sendResponse s req payload))) = ?ok"
    by (simp add: sendResponse_eq)
  have er: "newErrorResponse req (toErrno (Some err)) = ?er"
    by (rule newErrorResponse_eq)
  have w: "c_written (s_conn (sendResponse s req payload)) = c_written (s_conn s) @ [?ok]"
    by (simp add: sendResponse_eq)
  have e1: "ih_Opcode (r_header req) \<noteq> OpForget \<and> ih_Opcode (r_header req) \<noteq> OpBatchForget \<longrightarrow>
          c_written (s_conn (sendError s req err)) = c_written (s_conn s) @ [?er]"
    by (simp add: sendError_eq)
  have e2: "ih_Opcode (r_header req) = OpForget \<or> ih_Opcode (r_header req) = OpBatchForget \<longrightarrow>
          sendError s req err = s"
    by (auto simp add: sendError_eq)
  have m: "unat (OutHeader_Len ?ok) = length ?ok mod 2 ^ 32"
    unfolding OutHeader_success_frame length_success_frame
    by (simp only: unat_of_nat) simp
  have l: "length ?ok < 2 ^ 32 \<longrightarrow> unat (OutHeader_Len ?ok) = length ?ok"
    unfolding m by simp
  have neg: "\<forall>e. err = Errno e \<and> unat e < 2 ^ 31 \<longrightarrow> sint (toErrno (Some err)) = - int (unat e)"
    using sint_neg_ucast_errno by (auto simp: toErrno_def)
  have np: "(\<forall>e. err = Errno e \<longrightarrow> unat e < 2 ^ 31) \<longrightarrow> sint (toErrno (Some err)) \<le> 0"
    using toErrno_nonpositive by blast
  have le: "unat (OutHeader_Len ?er) = length ?er"
    by (simp add: OutHeader_error_frame)
  show ?thesis
    unfolding Let_def ok er
    using w e1 e2 m l neg np le
    by (simp only: length_success_frame OutHeader_success_frame(2,3) OutHeader_error_frame(2,3))
      simp
qed

lemma sint_toErrno_large: "sint (toErrno (Some (Errno 4294967295))) = 1"
  by (simp add: toErrno_def)

theorem response_frames_header_counterexample:
  "sint (OutHeader_Error (last (c_written (s_conn (sendError (Mount zero_options)
      (newRequest (in_header_bytes \<lparr> ih_Len = 40, ih_Opcode = OpReadlink, ih_Unique = 42,
         ih_NodeID = 2, ih_Uid = 0, ih_Gid = 0, ih_Pid = 1, ih_Padding = 0 \<rparr>) (replicate 135168 0))
      (Errno 4294967295)))))) = 1
   \<and> length (last (c_written (s_conn (sendResponse (Mount zero_options)
      (newRequest (in_header_bytes \<lparr> ih_Len = 40, ih_Opcode = OpReadlink, ih_Unique = 42,
         ih_NodeID = 2, ih_Uid = 0, ih_Gid = 0, ih_Pid = 1, ih_Padding = 0 \<rparr>) (replicate 135168 0))
      (replicate 4294967280 0))))) = 4294967296
   \<and> unat (OutHeader_Len (last (c_written (s_conn (sendResponse (Mount zero_options)
      (newRequest (in_header_bytes \<lparr> ih_Len = 40, ih_Opcode = OpReadlink, ih_Unique = 42,
         ih_NodeID = 2, ih_Uid = 0, ih_Gid = 0, ih_Pid = 1, ih_Padding = 0 \<rparr>) (replicate 135168 0))
      (replicate 4294967280 0)))))) = 0"
  by (simp add: sendResponse_eq sendError_eq newRequest_in_header_bytes0 opcode_defs
      OutHeader_success_frame OutHeader_error_frame length_success_frame sint_toErrno_large)

theorem response_frames_header_witness:
  "(let req = newRequest (in_header_bytes \<lparr> ih_Len = 40, ih_Opcode = OpReadlink, ih_Unique = 42,
         ih_NodeID = 2, ih_Uid = 0, ih_Gid = 0, ih_Pid = 1, ih_Padding = 0 \<rparr>) (replicate 135168 0);
        ok = last (c_written (s_conn (sendResponse (Mount zero_options) req [47, 97])));
        er = last (c_written (s_conn (sendError (Mount zero_options) req (Errno 38))))
    in ok = [18, 0, 0, 0, 0, 0, 0, 0, 42, 0, 0, 0, 0, 0, 0, 0, 47, 97]
     \<and> unat (OutHeader_Len ok) = 18 \<and> OutHeader_Error ok = 0 \<and> OutHeader_Unique ok = 42
     \<and> er = [16, 0, 0, 0, 218, 255, 255, 255, 42, 0, 0, 0, 0, 0, 0, 0]
     \<and> unat (OutHeader_Len er) = 16 \<and> sint (OutHeader_Error er) = - 38
     \<and> OutHeader_Unique er = 42)"
proof -
  let ?req = "newRequest (in_header_bytes \<lparr> ih_Len = 40, ih_Opcode = OpReadlink, ih_Unique = 42,
         ih_NodeID = 2, ih_Uid = 0, ih_Gid = 0, ih_Pid = 1, ih_Padding = 0 \<rparr>) (replicate 135168 0)"
  have h: "ih_Opcode (r_header ?req) \<noteq> OpForget \<and> ih_Opcode (r_header ?req) \<noteq> OpBatchForget"
    by (simp add: newRequest_in_header_bytes0 opcode_defs)
  have b: "\<forall>e. Errno 38 = Errno e \<longrightarrow> unat e < 2 ^ 31" "unat (38 :: u64) < 2 ^ 31"
    by simp_all
  have u: "ih_Unique (r_header ?req) = 42"
    by (simp add: newRequest_in_header_bytes0)
  have ok: "last (c_written (s_conn (sendResponse (Mount zero_options) ?req [47, 97])))
              = [18, 0, 0, 0, 0, 0, 0, 0, 42, 0, 0, 0, 0, 0, 0, 0, 47, 97]"
    by (simp add: sendResponse_eq success_frame_def newRequest_in_header_bytes0 le_eval)
  have er: "last (c_written (s_conn (sendError (Mount zero_options) ?req (Errno 38))))
              = [16, 0, 0, 0, 218, 255, 255, 255, 42, 0, 0, 0, 0, 0, 0, 0]"
    by (simp add: sendError_eq newRequest_in_header_bytes0 opcode_defs toErrno_def le_eval)
  have ne: "newErrorResponse ?req (toErrno (Some (Errno 38)))
              = [16, 0, 0, 0, 218, 255, 255, 255, 42, 0, 0, 0, 0, 0, 0, 0]"
    by (simp add: newErrorResponse_eq newRequest_in_header_bytes0 toErrno_def le_eval)
  have te: "sint (toErrno (Some (Errno 38))) = - 38"
    by (simp add: toErrno_def)
  show ?thesis
    using response_frames_header [of "Mount zero_options" ?req "[47, 97]" "Errno 38"] h b
    unfolding Let_def ok er u ne by (simp add: te)
qed

section \<open>Reading and writing inside a buffer\<close>

lemma put_append_skip:
  "length xs \<le> off \<Longrightarrow> put (xs @ ys) off bs = xs @ put ys (off - length xs) bs"
  by (simp add: put_def)

lemma put_replicate_0:
  "length bs \<le> n \<Longrightarrow> put (replicate n 0) 0 bs = bs @ replicate (n - length bs) (0::byte)"
  by (simp add: put_def)

lemma put_replicate_skip:
  "k \<le> n \<Longrightarrow> put (replicate n 0) k bs
     = replicate k (0::byte) @ put (replicate (n - k) 0) 0 bs"
  by (simp add: put_def min_def flip: replicate_add)

lemma u32_at_skip: "length xs \<le> off \<Longrightarrow> u32_at (xs @ ys) off = u32_at ys (off - length xs)"
  by (simp add: u32_at_def)

lemma u64_at_skip: "length xs \<le> off \<Longrightarrow> u64_at (xs @ ys) off = u64_at ys (off - length xs)"
  by (simp add: u64_at_def)

lemma u16_at_skip: "length xs \<le> off \<Longrightarrow> u16_at (xs @ ys) off = u16_at ys (off - length xs)"
  by (simp add: u16_at_def)

lemma u64_at_le64_hd: "u64_at (le64 v @ zs) 0 = v"
  using u64_at_le64 [of "[]" 0 v zs] by simp

lemmas put_simps = PutUint16_def PutUint32_def PutUint64_def make_bytes_def
  put_append_skip put_replicate_0
lemmas get_simps = u32_at_skip u64_at_skip u32_at_le32_hd u64_at_le64_hd

lemma initOutBytes_eq:
  "initOutBytes out =
     le32 (io_Major out) @ le32 (io_Minor out) @ le32 (io_MaxReadahead out)
     @ le32 (io_Flags out) @ le16 (io_MaxBackground out) @ le16 (io_CongestionThreshold out)
     @ le32 (io_MaxWrite out) @ le32 (io_TimeGran out) @ le16 (io_MaxPages out)
     @ le16 (io_MapAlignment out) @ le32 (io_Flags2 out) @ le32 (io_MaxStackDepth out)
     @ replicate 24 0"
  by (simp add: initOutBytes_def Let_def InitOutSize_def put_simps)

lemma length_initOutBytes: "length (initOutBytes out) = 64"
  by (simp add: initOutBytes_eq)

lemma InitOut_fields:
  "InitOut_Major (initOutBytes out) = io_Major out"
  "InitOut_Minor (initOutBytes out) = io_Minor out"
  "InitOut_Flags (initOutBytes out) = io_Flags out"
  "InitOut_Flags2 (initOutBytes out) = io_Flags2 out"
  "InitOut_MaxStackDepth (initOutBytes out) = io_MaxStackDepth out"
  by (simp_all add: initOutBytes_eq InitOut_Major_def InitOut_Minor_def InitOut_Flags_def
      InitOut_Flags2_def InitOut_MaxStackDepth_def get_simps)

lemma payload_success_frame: "response_payload (success_frame req p) = p"
  by (simp add: response_payload_def success_frame_def OutHeaderSize_def)

section \<open>INIT\<close>

lemma handleRequest_handler:
  assumes "\<not> isWriteOp (ih_Opcode (r_header req))"
    and "handlers (ih_Opcode (r_header req)) = Some h"
  shows "handleRequest fs s req =
           (case h fs s req of
              (s', Panicked) \<Rightarrow> (s', True)
            | (s', Returned (Some err)) \<Rightarrow> (sendError s' req err, False)
            | (s', Returned None) \<Rightarrow> (s', False))"
  using assms by (simp add: handleRequest_def Let_def)

lemma handlers_OpInit: "handlers OpInit = Some handleInit" "\<not> isWriteOp OpInit"
  by (simp_all add: handlers_def isWriteOp_def opcode_defs)

lemma ucast_u32_high_bits:
  fixes w :: u32
  shows "drop_bit 32 (ucast w :: u64) = 0"
  by (auto simp add: bit_eq_iff bit_simps dest: bit_imp_le_length)

lemma ucast_u32_and_high:
  fixes w :: u32
  assumes "32 \<le> n"
  shows "(ucast w :: u64) AND push_bit n 1 = 0"
proof (rule bit_eqI)
  fix k
  have "bit w k \<Longrightarrow> k < 32" using bit_imp_le_length [of w k] by simp
  with assms show "bit ((ucast w :: u64) AND push_bit n 1) k = bit (0 :: u64) k"
    by (auto simp add: bit_and_iff bit_ucast_iff bit_push_bit_iff bit_1_iff bit_exp_iff)
qed

lemma ucast_u32_no_extended_cap:
  "(ucast (w::u32) :: u64) AND CapSecurityCtx = 0"
  "(ucast (w::u32) :: u64) AND CapPassthrough = 0"
  unfolding CapSecurityCtx_def CapPassthrough_def by (rule ucast_u32_and_high, simp)+

lemma advertised_caps_initOutBytes:
  "io_Flags2 out = 0 \<Longrightarrow> advertised_caps (initOutBytes out) = ucast (io_Flags out)"
  by (simp add: advertised_caps_def InitOut_fields)

lemma handleInit_major_mismatch:
  assumes "body req = Some inp" and "InitIn_Major inp \<noteq> FuseKernelVersion"
  shows "handleInit fs s req = (sendResponse s req (initOutBytes init_reply_mismatch), Returned None)"
  using assms by (simp add: handleInit_def Let_def init_reply_mismatch_def)

lemma handleInit_minor_low:
  assumes "body req = Some inp" and "InitIn_Major inp = FuseKernelVersion"
    and "InitIn_Minor inp < MinSupportedMinor"
  shows "handleInit fs s req = (s, Returned (Some (Errno EPROTO)))"
  using assms by (simp add: handleInit_def Let_def)

lemma min_if: "(if (b::u32) < a then b else a) = min a b"
  by (auto simp: min_def)

lemma handleInit_negotiate:
  assumes "body req = Some inp" and "InitIn_Major inp = FuseKernelVersion"
    and "\<not> InitIn_Minor inp < MinSupportedMinor"
  shows "handleInit fs s req =
           (case fs_Init fs (newContext req) (init_config s inp) of
              Some err \<Rightarrow> (init_state s req inp, Returned (Some err))
            | None \<Rightarrow> (sendResponse ((init_state s req inp)\<lparr>s_initialized := True\<rparr>) req
                         (initOutBytes (init_reply s inp)), Returned None))"
  using assms
  by (simp add: handleInit_def Let_def record_call_def min_if init_config_def init_state_def
      init_reply_def split: option.splits)

lemma handleRequest_init:
  assumes "ih_Opcode (r_header req) = OpInit"
  shows "handleRequest fs s req =
           (case handleInit fs s req of
              (s', Panicked) \<Rightarrow> (s', True)
            | (s', Returned (Some err)) \<Rightarrow> (sendError s' req err, False)
            | (s', Returned None) \<Rightarrow> (s', False))"
  using handleRequest_handler [of req handleInit] assms handlers_OpInit by simp

lemma negotiated_minor_range:
  assumes "\<not> (m :: u32) < MinSupportedMinor"
  shows "MinSupportedMinor \<le> min m FuseKernelMinorVersion"
    and "min m FuseKernelMinorVersion \<le> FuseKernelMinorVersion"
  using assms by (simp_all add: MinSupportedMinor_def FuseKernelMinorVersion_def)

text \<open>
  C5. An INIT request that carries a body (an \<open>InitIn\<close> to read):
  \<^item> kernel major other than 7: the only effect is one success frame whose \<open>InitOut\<close>
    has major 7 and minor 41; the server is not marked initialized, the stored version
    and the configuration are as before, and \<open>Init\<close> of the filesystem is not called;
  \<^item> major 7 and kernel minor below 26: the handler fails with \<open>EPROTO\<close> (and the
    dispatcher answers with that error), the state is untouched;
  \<^item> otherwise the stored minor is \<open>min (kernel minor) 41\<close>, hence between 26 and 41,
    and the stored major is 7; a server that this request marks initialized therefore
    stores a minor between 26 and 41.
\<close>

theorem init_version_handshake:
  assumes "ih_Opcode (r_header req) = OpInit" and "body req = Some inp"
  shows
    "(InitIn_Major inp \<noteq> 7 \<longrightarrow>
        (\<exists>p. handleRequest fs s req =
               (s\<lparr>s_conn := (s_conn s)\<lparr>c_written := c_written (s_conn s) @ [success_frame req p]\<rparr>\<rparr>,
                False)
           \<and> length p = 64 \<and> InitOut_Major p = 7 \<and> InitOut_Minor p = 41)
        \<and> s_initialized (fst (handleRequest fs s req)) = s_initialized s
        \<and> s_calls (fst (handleRequest fs s req)) = s_calls s
        \<and> c_protoMajor (s_conn (fst (handleRequest fs s req))) = c_protoMajor (s_conn s)
        \<and> c_protoMinor (s_conn (fst (handleRequest fs s req))) = c_protoMinor (s_conn s))
   \<and> (InitIn_Major inp = 7 \<and> InitIn_Minor inp < 26 \<longrightarrow>
        handleInit fs s req = (s, Returned (Some (Errno EPROTO)))
        \<and> handleRequest fs s req = (sendError s req (Errno EPROTO), False))
   \<and> (InitIn_Major inp = 7 \<and> 26 \<le> InitIn_Minor inp \<longrightarrow>
        c_protoMinor (s_conn (fst (handleRequest fs s req))) = min (InitIn_Minor inp) 41
        \<and> 26 \<le> c_protoMinor (s_conn (fst (handleRequest fs s req)))
        \<and> c_protoMinor (s_conn (fst (handleRequest fs s req))) \<le> 41
        \<and> c_protoMajor (s_conn (fst (handleRequest fs s req))) = 7)
   \<and> (\<not> s_initialized s \<and> s_initialized (fst (handleRequest fs s req)) \<longrightarrow>
        26 \<le> c_protoMinor (s_conn (fst (handleRequest fs s req)))
        \<and> c_protoMinor (s_conn (fst (handleRequest fs s req))) \<le> 41)"
proof -
  have three: "(InitIn_Major inp \<noteq> 7 \<longrightarrow>
        (\<exists>p. handleRequest fs s req =
               (s\<lparr>s_conn := (s_conn s)\<lparr>c_written := c_written (s_conn s) @ [success_frame req p]\<rparr>\<rparr>,
                False)
           \<and> length p = 64 \<and> InitOut_Major p = 7 \<and> InitOut_Minor p = 41)
        \<and> s_initialized (fst (handleRequest fs s req)) = s_initialized s
        \<and> s_calls (fst (handleRequest fs s req)) = s_calls s
        \<and> c_protoMajor (s_conn (fst (handleRequest fs s req))) = c_protoMajor (s_conn s)
        \<and> c_protoMinor (s_conn (fst (handleRequest fs s req))) = c_protoMinor (s_conn s))
   \<and> (InitIn_Major inp = 7 \<and> InitIn_Minor inp < 26 \<longrightarrow>
        handleInit fs s req = (s, Returned (Some (Errno EPROTO)))
        \<and> handleRequest fs s req = (sendError s req (Errno EPROTO), False))
   \<and> (InitIn_Major inp = 7 \<and> 26 \<le> InitIn_Minor inp \<longrightarrow>
        c_protoMinor (s_conn (fst (handleRequest fs s req))) = min (InitIn_Minor inp) 41
        \<and> 26 \<le> c_protoMinor (s_conn (fst (handleRequest fs s req)))
        \<and> c_protoMinor (s_conn (fst (handleRequest fs s req))) \<le> 41
        \<and> c_protoMajor (s_conn (fst (handleRequest fs s req))) = 7)"
proof (intro conjI impI)
  assume m: "InitIn_Major inp \<noteq> 7"
  have h: "handleRequest fs s req =
             (s\<lparr>s_conn := (s_conn s)\<lparr>c_written := c_written (s_conn s)
                  @ [success_frame req (initOutBytes init_reply_mismatch)]\<rparr>\<rparr>, False)"
    using m assms
    by (simp add: handleRequest_init handleInit_major_mismatch FuseKernelVersion_def
        sendResponse_eq)
  show "\<exists>p. handleRequest fs s req =
               (s\<lparr>s_conn := (s_conn s)\<lparr>c_written := c_written (s_conn s) @ [success_frame req p]\<rparr>\<rparr>,
                False)
           \<and> length p = 64 \<and> InitOut_Major p = 7 \<and> InitOut_Minor p = 41"
    using h
    by (intro exI [of _ "initOutBytes init_reply_mismatch"])
      (simp add: length_initOutBytes InitOut_fields init_reply_mismatch_def
        FuseKernelVersion_def FuseKernelMinorVersion_def)
  show "s_initialized (fst (handleRequest fs s req)) = s_initialized s"
    "s_calls (fst (handleRequest fs s req)) = s_calls s"
    "c_protoMajor (s_conn (fst (handleRequest fs s req))) = c_protoMajor (s_conn s)"
    "c_protoMinor (s_conn (fst (handleRequest fs s req))) = c_protoMinor (s_conn s)"
    by (simp_all add: h)
next
  assume "InitIn_Major inp = 7 \<and> InitIn_Minor inp < 26"
  then have l: "handleInit fs s req = (s, Returned (Some (Errno EPROTO)))"
    using assms handleInit_minor_low [of req inp fs s]
    by (simp add: FuseKernelVersion_def MinSupportedMinor_def)
  then show "handleInit fs s req = (s, Returned (Some (Errno EPROTO)))" .
  from l show "handleRequest fs s req = (sendError s req (Errno EPROTO), False)"
    using assms by (simp add: handleRequest_init)
next
  assume a: "InitIn_Major inp = 7 \<and> 26 \<le> InitIn_Minor inp"
  then have n: "\<not> InitIn_Minor inp < MinSupportedMinor" and j: "InitIn_Major inp = FuseKernelVersion"
    by (auto simp add: MinSupportedMinor_def FuseKernelVersion_def not_less)
  have c: "c_protoMinor (s_conn (fst (handleRequest fs s req)))
             = min (InitIn_Minor inp) FuseKernelMinorVersion
         \<and> c_protoMajor (s_conn (fst (handleRequest fs s req))) = FuseKernelVersion"
    using assms j
    by (simp add: handleRequest_init handleInit_negotiate [OF assms(2) j n] sendResponse_eq
        sendError_eq init_state_def split: option.splits)
  from c show "c_protoMinor (s_conn (fst (handleRequest fs s req))) = min (InitIn_Minor inp) 41"
    by (simp add: FuseKernelMinorVersion_def)
  from c negotiated_minor_range [OF n]
  show "26 \<le> c_protoMinor (s_conn (fst (handleRequest fs s req)))"
    "c_protoMinor (s_conn (fst (handleRequest fs s req))) \<le> 41"
    by (simp_all add: MinSupportedMinor_def FuseKernelMinorVersion_def)
  from c show "c_protoMajor (s_conn (fst (handleRequest fs s req))) = 7"
    by (simp add: FuseKernelVersion_def)
qed
  have "InitIn_Major inp = 7 \<and> 26 \<le> InitIn_Minor inp"
    if i: "\<not> s_initialized s" "s_initialized (fst (handleRequest fs s req))"
  proof (rule ccontr)
    assume "\<not> (InitIn_Major inp = 7 \<and> 26 \<le> InitIn_Minor inp)"
    then consider "InitIn_Major inp \<noteq> 7" | "InitIn_Major inp = 7 \<and> InitIn_Minor inp < 26"
      by (auto simp add: not_le)
    then show False
    proof cases
      case 1
      with three i show False by simp
    next
      case 2
      with three have "handleRequest fs s req = (sendError s req (Errno EPROTO), False)"
        by blast
      with i assms(1) show False
        by (simp add: sendError_eq opcode_defs)
    qed
  qed
  with three show ?thesis
    by blast
qed

lemma body_newRequest:
  "b \<noteq> [] \<Longrightarrow> body (newRequest (in_header_bytes h @ b) rest) = Some (b @ rest)"
  "body (newRequest (in_header_bytes h) rest) = None"
  by (simp_all add: body_def newRequest_in_header_bytes newRequest_in_header_bytes0 InHeaderSize_def)

lemma bodyBytes_newRequest:
  "bodyBytes (newRequest (in_header_bytes h @ b) rest) = b"
  by (simp add: bodyBytes_def newRequest_in_header_bytes InHeaderSize_def)

text \<open>With the default options the pool buffers have 135208 bytes; a message of at
  least \<open>InHeaderSize\<close> bytes read into a fresh (zeroed) buffer gives the request
  made of the message and the zero bytes left over.\<close>

lemma bufPool_size_default: "bufPool_size (Mount zero_options) = 135208"
  by (simp add: bufPool_size_def newBufferPool_def MinBufferSize_def Mount_def Let_def
      zero_options_def DefaultMaxWrite_def InHeaderSize_def)

lemma readRequest_fresh:
  assumes "InHeaderSize \<le> length msg" and "length msg \<le> n"
  shows "readRequest (replicate n 0) msg = Some (newRequest msg (replicate (n - length msg) 0))"
  using assms by (simp add: readRequest_def Let_def)

theorem init_version_handshake_witness:
  "(let s = Mount zero_options;
        hdr = in_header_bytes \<lparr> ih_Len = 104, ih_Opcode = OpInit, ih_Unique = 1, ih_NodeID = 0,
                                 ih_Uid = 0, ih_Gid = 0, ih_Pid = 0, ih_Padding = 0 \<rparr>;
        rest = replicate 135104 0;
        tl = le32 131072 @ le32 4294967295 @ le32 4294967295 @ replicate 44 0;
        req8 = newRequest (hdr @ le32 8 @ le32 41 @ tl) rest;
        req25 = newRequest (hdr @ le32 7 @ le32 25 @ tl) rest;
        req50 = newRequest (hdr @ le32 7 @ le32 50 @ tl) rest
    in \<not> s_initialized (fst (handleRequest MyFS s req8))
     \<and> s_calls (fst (handleRequest MyFS s req8)) = []
     \<and> c_protoMinor (s_conn (fst (handleRequest MyFS s req8))) = 0
     \<and> handleRequest MyFS s req25 = (sendError s req25 (Errno EPROTO), False)
     \<and> c_protoMinor (s_conn (fst (handleRequest MyFS s req50))) = 41
     \<and> c_protoMajor (s_conn (fst (handleRequest MyFS s req50))) = 7)"
proof -
  define hdr where "hdr = in_header_bytes \<lparr> ih_Len = 104, ih_Opcode = OpInit, ih_Unique = 1,
     ih_NodeID = 0, ih_Uid = 0, ih_Gid = 0, ih_Pid = 0, ih_Padding = 0 \<rparr>"
  define rest :: "byte list" where "rest = replicate 135104 0"
  define tl :: "byte list" where
    "tl = le32 131072 @ le32 4294967295 @ le32 4294967295 @ replicate 44 0"
  define s where "s = Mount zero_options"
  have op: "ih_Opcode (r_header (newRequest (hdr @ b) rest)) = OpInit" for b
    by (simp add: hdr_def newRequest_in_header_bytes)
  have bd: "body (newRequest (hdr @ le32 M @ le32 m @ tl) rest) = Some ((le32 M @ le32 m @ tl) @ rest)"
    for M m unfolding hdr_def by (rule body_newRequest) (simp add: le_eval)
  have f: "InitIn_Major ((le32 M @ le32 m @ tl) @ rest) = M"
    "InitIn_Minor ((le32 M @ le32 m @ tl) @ rest) = m" for M m
    by (simp_all add: InitIn_Major_def InitIn_Minor_def get_simps)
  note t8 = init_version_handshake [OF op bd, of 8 41 MyFS s, unfolded f]
  note t25 = init_version_handshake [OF op bd, of 7 25 MyFS s, unfolded f]
  note t50 = init_version_handshake [OF op bd, of 7 50 MyFS s, unfolded f]
  have s0: "\<not> s_initialized s" "s_calls s = []" "c_protoMinor (s_conn s) = 0"
    by (simp_all add: s_def Mount_def Let_def)
  show ?thesis
    unfolding Let_def hdr_def [symmetric] rest_def [symmetric] tl_def [symmetric] s_def [symmetric]
    using t8 t25 t50 s0 by simp
qed

text \<open>
  C10. Every frame written while an INIT request is handled is either a header-only
  frame (an error reply, 16 bytes) or an 80-byte frame whose \<open>InitOut\<close> has
  \<open>Flags2 = 0\<close> and \<open>MaxStackDepth = 0\<close>; the advertised capability set has no bit
  above bit 31, in particular neither \<open>CapSecurityCtx\<close> nor \<open>CapPassthrough\<close>,
  whatever \<open>Flags\<close> and \<open>Flags2\<close> the kernel offers.
\<close>

theorem init_out_no_extended_caps:
  assumes "ih_Opcode (r_header req) = OpInit"
  shows "\<forall>f \<in> set (frames_written s (fst (handleRequest fs s req))).
           length f = 16
           \<or> (length f = 80
              \<and> InitOut_Flags2 (response_payload f) = 0
              \<and> InitOut_MaxStackDepth (response_payload f) = 0
              \<and> drop_bit 32 (advertised_caps (response_payload f)) = 0
              \<and> advertised_caps (response_payload f) AND CapSecurityCtx = 0
              \<and> advertised_caps (response_payload f) AND CapPassthrough = 0)"
proof -
  have ok: "length (success_frame req (initOutBytes out)) = 80
      \<and> InitOut_Flags2 (response_payload (success_frame req (initOutBytes out))) = 0
      \<and> InitOut_MaxStackDepth (response_payload (success_frame req (initOutBytes out))) = 0
      \<and> drop_bit 32 (advertised_caps (response_payload (success_frame req (initOutBytes out)))) = 0
      \<and> advertised_caps (response_payload (success_frame req (initOutBytes out))) AND CapSecurityCtx = 0
      \<and> advertised_caps (response_payload (success_frame req (initOutBytes out))) AND CapPassthrough = 0"
    if "io_Flags2 out = 0" and "io_MaxStackDepth out = 0" for out
    using that
    by (simp add: length_success_frame length_initOutBytes payload_success_frame InitOut_fields
        advertised_caps_initOutBytes ucast_u32_high_bits ucast_u32_no_extended_cap)
  have er: "length (le32 16 @ le32 e @ le64 u) = 16" for e u
    by simp
  show ?thesis
  proof (cases "body req")
    case None
    then show ?thesis
      using assms by (simp add: handleRequest_init handleInit_def frames_written_def)
  next
    case (Some inp)
    consider (mismatch) "InitIn_Major inp \<noteq> FuseKernelVersion"
      | (low) "InitIn_Major inp = FuseKernelVersion" "InitIn_Minor inp < MinSupportedMinor"
      | (go) "InitIn_Major inp = FuseKernelVersion" "\<not> InitIn_Minor inp < MinSupportedMinor"
      by blast
    then show ?thesis
    proof cases
      case mismatch
      have "io_Flags2 init_reply_mismatch = 0" "io_MaxStackDepth init_reply_mismatch = 0"
        by (simp_all add: init_reply_mismatch_def)
      from ok [OF this] show ?thesis
        using assms
        by (simp add: handleRequest_init handleInit_major_mismatch [OF Some mismatch]
            sendResponse_eq frames_written_def)
    next
      case low
      show ?thesis
        using assms er
        by (simp add: handleRequest_init handleInit_minor_low [OF Some low] sendError_eq
            opcode_defs frames_written_def)
    next
      case go
      have "io_Flags2 (init_reply s inp) = 0" "io_MaxStackDepth (init_reply s inp) = 0"
        by (simp_all add: init_reply_def)
      from ok [OF this] show ?thesis
        using assms er
        by (simp add: handleRequest_init handleInit_negotiate [OF Some go] sendResponse_eq
            sendError_eq opcode_defs init_state_def frames_written_def split: option.splits)
    qed
  qed
qed

theorem init_out_no_extended_caps_witness:
  "(let s = Mount zero_options;
        req = newRequest (in_header_bytes \<lparr> ih_Len = 104, ih_Opcode = OpInit, ih_Unique = 1,
                 ih_NodeID = 0, ih_Uid = 0, ih_Gid = 0, ih_Pid = 0, ih_Padding = 0 \<rparr>
               @ le32 7 @ le32 41 @ le32 131072 @ le32 4294967295 @ le32 4294967295
               @ replicate 44 0) (replicate 135104 0);
        fw = frames_written s (fst (handleRequest MyFS s req))
    in InitIn_Flags2 (the (body req)) = 4294967295
     \<and> length fw = 1 \<and> length (hd fw) = 80
     \<and> InitOut_Flags2 (response_payload (hd fw)) = 0
     \<and> InitOut_MaxStackDepth (response_payload (hd fw)) = 0
     \<and> advertised_caps (response_payload (hd fw)) AND CapSecurityCtx = 0
     \<and> advertised_caps (response_payload (hd fw)) AND CapPassthrough = 0)"
proof -
  define b :: "byte list" where
    "b = le32 7 @ le32 41 @ le32 131072 @ le32 4294967295 @ le32 4294967295 @ replicate 44 0"
  define req where "req = newRequest (in_header_bytes \<lparr> ih_Len = 104, ih_Opcode = OpInit,
     ih_Unique = 1, ih_NodeID = 0, ih_Uid = 0, ih_Gid = 0, ih_Pid = 0, ih_Padding = 0 \<rparr> @ b)
     (replicate 135104 0)"
  define s where "s = Mount zero_options"
  have op: "ih_Opcode (r_header req) = OpInit"
    by (simp add: req_def newRequest_in_header_bytes)
  have bd: "body req = Some (b @ replicate 135104 0)"
    unfolding req_def by (rule body_newRequest) (simp add: b_def le_eval)
  have f: "InitIn_Major (b @ replicate 135104 0) = FuseKernelVersion"
    "\<not> InitIn_Minor (b @ replicate 135104 0) < MinSupportedMinor"
    "InitIn_Flags2 (b @ replicate 135104 0) = 4294967295"
    by (simp_all add: b_def InitIn_Major_def InitIn_Minor_def InitIn_Flags2_def get_simps
        FuseKernelVersion_def MinSupportedMinor_def)
  have fw: "frames_written s (fst (handleRequest MyFS s req))
              = [success_frame req (initOutBytes (init_reply s (b @ replicate 135104 0)))]"
    using op
    by (simp add: handleRequest_init handleInit_negotiate [OF bd f(1,2)] MyFS_def
        sendResponse_eq frames_written_def init_state_def)
  have l: "length (success_frame req (initOutBytes (init_reply s (b @ replicate 135104 0)))) = 80"
    by (simp add: length_success_frame length_initOutBytes)
  show ?thesis
    unfolding Let_def b_def [symmetric] req_def [symmetric] s_def [symmetric]
    using init_out_no_extended_caps [OF op, of s MyFS] l
    by (simp add: fw bd f)
qed

section \<open>Requests without a body\<close>

lemma handlers_eval:
  "handlers OpGetattr = Some handleGetattr" "\<not> isWriteOp OpGetattr"
  "handlers OpRead = Some handleRead" "\<not> isWriteOp OpRead"
  "handlers OpBatchForget = Some handleBatchForget" "\<not> isWriteOp OpBatchForget"
  "handlers OpReaddirplus = Some handleReaddirplus" "\<not> isWriteOp OpReaddirplus"
  by (simp_all add: handlers_def isWriteOp_def opcode_defs)

text \<open>
  C7 (defect of the code). A GETATTR request that consists of the header only is a
  request the library accepts (\<open>readRequest\<close> requires \<open>InHeaderSize\<close> bytes, and
  \<open>body\<close> returns nil for it). \<open>handleGetattr\<close> dereferences that nil pointer: the
  goroutine panics, and no frame, in particular no \<open>EINVAL\<close> reply, is written.
\<close>

theorem getattr_without_body_panics:
  "handleRequest MyFS (Mount zero_options)
     (newRequest (in_header_bytes \<lparr> ih_Len = 40, ih_Opcode = OpGetattr, ih_Unique = 7,
        ih_NodeID = 1, ih_Uid = 0, ih_Gid = 0, ih_Pid = 1, ih_Padding = 0 \<rparr>) (replicate 135168 0))
   = (Mount zero_options, True)"
proof -
  let ?req = "newRequest (in_header_bytes \<lparr> ih_Len = 40, ih_Opcode = OpGetattr, ih_Unique = 7,
        ih_NodeID = 1, ih_Uid = 0, ih_Gid = 0, ih_Pid = 1, ih_Padding = 0 \<rparr>) (replicate 135168 0)"
  have "ih_Opcode (r_header ?req) = OpGetattr"
    by (simp add: newRequest_in_header_bytes0)
  then show ?thesis
    using handleRequest_handler [of ?req handleGetattr MyFS "Mount zero_options"]
    by (simp add: handlers_eval handleGetattr_def body_newRequest)
qed

text \<open>
  C2 (defect of the code, the same as for C7). A READ request that consists of the
  header only makes \<open>handleRead\<close> dereference the nil body: the goroutine panics and the
  number of frames written for the request is zero, not one.
\<close>

theorem read_without_body_no_reply:
  "snd (handleRequest MyFS (Mount zero_options)
     (newRequest (in_header_bytes \<lparr> ih_Len = 40, ih_Opcode = OpRead, ih_Unique = 9,
        ih_NodeID = 2, ih_Uid = 0, ih_Gid = 0, ih_Pid = 1, ih_Padding = 0 \<rparr>) (replicate 135168 0)))
   \<and> frames_written (Mount zero_options) (fst (handleRequest MyFS (Mount zero_options)
     (newRequest (in_header_bytes \<lparr> ih_Len = 40, ih_Opcode = OpRead, ih_Unique = 9,
        ih_NodeID = 2, ih_Uid = 0, ih_Gid = 0, ih_Pid = 1, ih_Padding = 0 \<rparr>) (replicate 135168 0))))
     = []"
proof -
  let ?req = "newRequest (in_header_bytes \<lparr> ih_Len = 40, ih_Opcode = OpRead, ih_Unique = 9,
        ih_NodeID = 2, ih_Uid = 0, ih_Gid = 0, ih_Pid = 1, ih_Padding = 0 \<rparr>) (replicate 135168 0)"
  have "ih_Opcode (r_header ?req) = OpRead"
    by (simp add: newRequest_in_header_bytes0)
  then show ?thesis
    using handleRequest_handler [of ?req handleRead MyFS "Mount zero_options"]
    by (simp add: handlers_eval handleRead_def body_newRequest frames_written_def)
qed

section \<open>BATCH_FORGET\<close>

lemma length_parse_forget:
  "length (parse_forget k i offset bodyb entries) = length entries"
  by (induction k arbitrary: i offset entries) (simp_all add: Let_def)

text \<open>Whatever the body holds, \<open>BatchForget\<close> receives as many entries as the count field
  announces: the slice is made with that length and never cut.\<close>

lemma handleBatchForget_entries:
  assumes "handleBatchForget fs s req = (s', out)" and "body req = Some inp"
    and "\<not> length (bodyBytes req) < BatchForgetInSize"
  shows "\<exists>entries. s_calls s' = s_calls s @ [CallBatchForget (newContext req) entries]
           \<and> length entries = unat (BatchForgetIn_Count inp)"
  using assms
  by (auto simp add: handleBatchForget_def Let_def record_call_def length_parse_forget)

text \<open>
  C6 (defect of the code). A BATCH_FORGET request announcing two entries whose body ends
  in the middle of the second one (node 5 with nlookup 1, then only the node-id 6): no
  frame is written, but \<open>BatchForget\<close> is called with two entries, the complete one and
  a zero entry \<open>{Ino: 0, Nlookup: 0}\<close> that the request does not contain, instead of
  the complete prefix alone.
\<close>

theorem batch_forget_truncated_passes_zero_entry:
  "(let s = Mount zero_options;
        req = newRequest (in_header_bytes \<lparr> ih_Len = 72, ih_Opcode = OpBatchForget,
                 ih_Unique = 11, ih_NodeID = 0, ih_Uid = 0, ih_Gid = 0, ih_Pid = 0,
                 ih_Padding = 0 \<rparr>
               @ le32 2 @ le32 0 @ le64 5 @ le64 1 @ le64 6) (replicate 135136 0)
    in handleRequest MyFS s req =
         (s\<lparr>s_calls := [CallBatchForget \<lparr> ctx_uid = 0, ctx_gid = 0, ctx_pid = 0, ctx_unique = 11 \<rparr>
                          [\<lparr> fe_Ino = 5, fe_Nlookup = 1 \<rparr>, \<lparr> fe_Ino = 0, fe_Nlookup = 0 \<rparr>]]\<rparr>,
          False))"
proof -
  define b :: "byte list" where "b = le32 2 @ le32 0 @ le64 5 @ le64 1 @ le64 6"
  define req where "req = newRequest (in_header_bytes \<lparr> ih_Len = 72, ih_Opcode = OpBatchForget,
     ih_Unique = 11, ih_NodeID = 0, ih_Uid = 0, ih_Gid = 0, ih_Pid = 0, ih_Padding = 0 \<rparr> @ b)
     (replicate 135136 0)"
  define s where "s = Mount zero_options"
  have op: "ih_Opcode (r_header req) = OpBatchForget"
    by (simp add: req_def newRequest_in_header_bytes)
  have bd: "body req = Some (b @ replicate 135136 0)"
    unfolding req_def by (rule body_newRequest) (simp add: b_def le_eval)
  have bb: "bodyBytes req = b"
    by (simp add: req_def bodyBytes_newRequest)
  have ctx: "newContext req = \<lparr> ctx_uid = 0, ctx_gid = 0, ctx_pid = 0, ctx_unique = 11 \<rparr>"
    by (simp add: newContext_def req_def newRequest_in_header_bytes)
  have c: "unat (BatchForgetIn_Count (b @ replicate 135136 0)) = Suc (Suc 0)"
    by (simp add: BatchForgetIn_Count_def b_def get_simps)
  have p: "parse_forget (Suc (Suc 0)) 0 BatchForgetInSize b
             [\<lparr> fe_Ino = 0, fe_Nlookup = 0 \<rparr>, \<lparr> fe_Ino = 0, fe_Nlookup = 0 \<rparr>]
           = [\<lparr> fe_Ino = 5, fe_Nlookup = 1 \<rparr>, \<lparr> fe_Ino = 0, fe_Nlookup = 0 \<rparr>]"
    by (simp add: b_def BatchForgetInSize_def ForgetOneSize_def ForgetOne_NodeID_def
        ForgetOne_Nlookup_def get_simps)
  have bl: "\<not> length b < BatchForgetInSize"
    by (simp add: b_def BatchForgetInSize_def)
  have h: "handleBatchForget MyFS s req =
             (s\<lparr>s_calls := s_calls s @ [CallBatchForget (newContext req)
                  [\<lparr> fe_Ino = 5, fe_Nlookup = 1 \<rparr>, \<lparr> fe_Ino = 0, fe_Nlookup = 0 \<rparr>]]\<rparr>,
              Returned None)"
    using bl
    by (simp add: handleBatchForget_def bb bd c p Let_def record_call_def
        del: parse_forget.simps)
  have s0: "s_calls s = []"
    by (simp add: s_def Mount_def Let_def)
  show ?thesis
    unfolding Let_def b_def [symmetric] req_def [symmetric] s_def [symmetric]
    using handleRequest_handler [of req handleBatchForget MyFS s] op
    by (simp add: handlers_eval h ctx s0)
qed

section \<open>Directory entries\<close>

lemma and_not_7_int: "(k::int) AND NOT 7 = 8 * (k div 8)"
proof -
  have "(7::int) = mask 3" by (simp add: mask_eq_exp_minus_1)
  then have "k AND NOT 7 = k AND NOT (mask 3)" by simp
  also have "\<dots> = push_bit 3 (drop_bit 3 k)"
    by (auto simp add: bit_eq_iff bit_simps)
  also have "\<dots> = 8 * (k div 8)"
    by (simp add: push_bit_eq_mult drop_bit_eq_div)
  finally show ?thesis .
qed

lemma pad8_eq: "pad8 n = 8 * ((n + 7) div 8)"
proof -
  have "(int n + 7) AND NOT 7 = 8 * ((int n + 7) div 8)" by (rule and_not_7_int)
  also have "\<dots> = int (8 * ((n + 7) div 8))" by (simp add: zdiv_int)
  finally show ?thesis by (simp add: pad8_def)
qed

lemma pad8_bounds: "n \<le> pad8 n" "pad8 n < n + 8" "8 dvd pad8 n"
proof -
  show "n \<le> pad8 n" unfolding pad8_eq by presburger
  show "pad8 n < n + 8" unfolding pad8_eq by presburger
  show "8 dvd pad8 n" unfolding pad8_eq by simp
qed

lemma put_seg0: "length ys = length bs \<Longrightarrow> put (ys @ zs) 0 bs = bs @ zs"
  by (simp add: put_def)

lemma put_end: "length ys = length bs \<Longrightarrow> put ys 0 bs = bs"
  by (simp add: put_def)

lemma length_PutUint:
  "length d = L \<Longrightarrow> off + 2 \<le> L \<Longrightarrow> length (PutUint16 d off v2) = L"
  "length d = L \<Longrightarrow> off + 4 \<le> L \<Longrightarrow> length (PutUint32 d off v4) = L"
  "length d = L \<Longrightarrow> off + 8 \<le> L \<Longrightarrow> length (PutUint64 d off v8) = L"
  by (auto simp add: PutUint16_def PutUint32_def PutUint64_def length_put)

lemma length_writeAttr:
  assumes "length d = L" and "base + 88 \<le> L"
  shows "length (writeAttr d base a) = L"
  apply (simp only: writeAttr_def Let_def)
  apply (intro length_PutUint)
  using assms apply simp_all
  done

lemma length_entryOutBytes: "length (entryOutBytes out) = 128"
  apply (simp only: entryOutBytes_def Let_def)
  apply (intro length_PutUint length_writeAttr)
  apply (simp_all add: make_bytes_def EntryOutSize_def)
  done

text \<open>The record of a plain entry: the 24-byte \<open>Dirent\<close>, the name, zero padding.\<close>

lemma dirent_record_eq:
  "dirent_record e =
     le64 (de_Ino e) @ le64 (de_Offset e) @ le32 (of_nat (length (de_Name e))) @ le32 (de_Type e)
     @ de_Name e @ replicate (pad8 (24 + length (de_Name e)) - (24 + length (de_Name e))) 0"
proof -
  let ?n = "length (de_Name e)"
  obtain r where P: "pad8 (24 + ?n) = 24 + ?n + r"
    using pad8_bounds(1) [of "24 + ?n"] le_Suc_ex by blast
  have m: "make_bytes (24 + ?n + r) =
             replicate 8 0 @ replicate 8 0 @ replicate 4 0 @ replicate 4 0
             @ replicate ?n 0 @ replicate r 0"
    by (simp add: make_bytes_def flip: replicate_add)
  have "dirent_record e =
     le64 (de_Ino e) @ le64 (de_Offset e) @ le32 (of_nat ?n) @ le32 (de_Type e)
     @ de_Name e @ replicate r 0"
    unfolding dirent_record_def Let_def DirentSize_def P m copy_at_def
      PutUint64_def PutUint32_def
    by (simp add: put_seg0 put_append_skip)
  then show ?thesis by (simp add: P)
qed

lemma length_dirent_record: "length (dirent_record e) = pad8 (24 + length (de_Name e))"
  using pad8_bounds(1) [of "24 + length (de_Name e)"] by (simp add: dirent_record_eq)

text \<open>The suffix of an entry with attributes.\<close>

lemma direntplus_suffix_eq:
  "direntplus_suffix e =
     le64 (e_Ino (dp_Entry e)) @ le64 (e_Generation (dp_Entry e))
     @ le32 (of_nat (length (dp_Name e))) @ le32 (fileModeToType (a_Mode (e_Attr (dp_Entry e))))
     @ dp_Name e @ replicate (pad8 (152 + length (dp_Name e)) - (152 + length (dp_Name e))) 0"
proof -
  let ?n = "length (dp_Name e)"
  obtain r where P: "pad8 (152 + ?n) = 152 + ?n + r"
    using pad8_bounds(1) [of "152 + ?n"] le_Suc_ex by blast
  have P': "pad8 (128 + 24 + ?n) - 128 = 24 + ?n + r"
    using P by simp
  have m: "make_bytes (24 + ?n + r) =
             replicate 8 0 @ replicate 8 0 @ replicate 4 0 @ replicate 4 0
             @ replicate ?n 0 @ replicate r 0"
    by (simp add: make_bytes_def flip: replicate_add)
  have "direntplus_suffix e =
     le64 (e_Ino (dp_Entry e)) @ le64 (e_Generation (dp_Entry e))
     @ le32 (of_nat ?n) @ le32 (fileModeToType (a_Mode (e_Attr (dp_Entry e))))
     @ dp_Name e @ replicate r 0"
    unfolding direntplus_suffix_def Let_def DirentPlusSize_def EntryOutSize_def DirentSize_def
    apply (simp only: P' m copy_at_def PutUint64_def PutUint32_def)
    apply (simp add: put_seg0 put_append_skip)
    done
  then show ?thesis by (simp add: P)
qed

lemma length_direntplus_suffix:
  "length (direntplus_suffix e) = pad8 (152 + length (dp_Name e)) - 128"
  using pad8_bounds(1) [of "152 + length (dp_Name e)"] by (simp add: direntplus_suffix_eq)

text \<open>In every record \<open>serializeDirentsPlus\<close> emits, the \<open>off\<close> field of the
  \<open>Dirent\<close>-shaped suffix is the generation of the entry.\<close>

lemma direntplus_suffix_off: "u64_at (direntplus_suffix e) 8 = e_Generation (dp_Entry e)"
  by (simp add: direntplus_suffix_eq get_simps)

text \<open>
  C4 (defect of the code). One entry with attributes, inode 2, generation 7, a regular
  file named \<open>a\<close>, serialized with a budget of 4096 bytes: a 128-byte \<open>EntryOut\<close>
  followed by a 32-byte suffix whose \<open>ino\<close> is 2, whose \<open>namelen\<close> is 1, whose \<open>type\<close>
  is \<open>DT_REG\<close>, whose name is \<open>a\<close>, and whose \<open>off\<close> field is 7: the generation of
  the inode, not an offset cookie (a \<open>DirEntryPlus\<close> does not even carry one).
\<close>

theorem readdirplus_off_is_generation:
  "(let e = \<lparr> dp_Entry = \<lparr> e_Ino = 2, e_Generation = 7, e_Attr = hello_attr,
                            e_AttrTimeout = time_Minute, e_EntryTimeout = time_Minute \<rparr>,
               dp_Name = [97] \<rparr>;
        out = serializeDirentsPlus [e] 4096
    in length out = 160
     \<and> take 128 out = entryOutBytes (entryToProto (dp_Entry e))
     \<and> u64_at out (128 + 0) = 2
     \<and> u64_at out (128 + 8) = 7
     \<and> u64_at out (128 + 8) = e_Generation (dp_Entry e)
     \<and> u32_at out (128 + 16) = 1
     \<and> u32_at out (128 + 20) = DtReg
     \<and> drop (128 + 24) out = [97, 0, 0, 0, 0, 0, 0, 0])"
proof -
  define e where "e = \<lparr> dp_Entry = \<lparr> e_Ino = 2, e_Generation = 7, e_Attr = hello_attr,
                            e_AttrTimeout = time_Minute, e_EntryTimeout = time_Minute \<rparr>,
               dp_Name = [97] \<rparr>"
  have p: "pad8 (DirentPlusSize + length (dp_Name e)) = 160"
    by (simp add: e_def pad8_eq DirentPlusSize_def EntryOutSize_def DirentSize_def)
  have t: "fileModeToType (a_Mode (e_Attr (dp_Entry e))) = DtReg"
    by (simp add: e_def hello_attr_def zero_Attr_def fileModeToType_def os_ModeType_def
        os_ModeDir_def os_ModeSymlink_def os_ModeNamedPipe_def os_ModeSocket_def
        os_ModeDevice_def os_ModeCharDevice_def os_ModeIrregular_def)
  have s: "direntplus_suffix e = le64 2 @ le64 7 @ le32 1 @ le32 DtReg @ [97, 0, 0, 0, 0, 0, 0, 0]"
    using p
    by (simp add: direntplus_suffix_eq t DirentPlusSize_def EntryOutSize_def DirentSize_def)
      (simp add: e_def eval_nat_numeral)
  have out: "serializeDirentsPlus [e] 4096
               = entryOutBytes (entryToProto (dp_Entry e)) @ direntplus_suffix e"
    by (simp add: serializeDirentsPlus_def p Let_def)
  have g: "e_Generation (dp_Entry e) = 7"
    by (simp add: e_def)
  show ?thesis
    unfolding Let_def e_def [symmetric] out g
    by (simp add: length_entryOutBytes s get_simps)
qed

section \<open>Timeouts\<close>

lemma sdiv_smod_nonneg:
  fixes k l :: int
  assumes "0 \<le> k" and "0 < l"
  shows "k sdiv l = k div l" and "k smod l = k mod l"
  using assms by (auto simp add: signed_divide_int_def signed_modulo_int_def sgn_if)

lemma sint_word_of_int_small:
  fixes k :: int
  assumes "0 \<le> k" and "k < 2 ^ 63"
  shows "sint (word_of_int k :: u64) = k"
proof -
  have "sint (word_of_int k :: u64) = signed_take_bit 63 k"
    by (simp add: sint_sbintrunc')
  also have "\<dots> = k"
  proof (rule signed_take_bit_int_eq_self)
    have "(0::int) < 2 ^ 63" by simp
    then show "- (2 ^ 63) \<le> k" using assms(1) by linarith
    show "k < 2 ^ 63" by (rule assms(2))
  qed
  finally show ?thesis .
qed

lemma durationToTimespec_nonneg:
  assumes "0 \<le> sint d"
  shows "durationToTimespec d
           = (word_of_int (sint d div 1000000000), word_of_int (sint d mod 1000000000))"
proof -
  let ?k = "sint d"
  have s: "sint time_Second = 1000000000" "sint time_Nanosecond = 1"
    by (simp_all add: time_Second_def time_Nanosecond_def)
  have m: "0 \<le> ?k mod 1000000000" "?k mod 1000000000 < 2 ^ 63"
  proof -
    show "0 \<le> ?k mod 1000000000" by simp
    have "?k mod 1000000000 < 1000000000" by simp
    also have "\<dots> < (2::int) ^ 63" by simp
    finally show "?k mod 1000000000 < 2 ^ 63" .
  qed
  have q: "go_quo d time_Second = word_of_int (?k div 1000000000)"
    using assms by (simp add: go_quo_def s sdiv_smod_nonneg)
  have r: "go_rem d time_Second = word_of_int (?k mod 1000000000)"
    using assms by (simp add: go_rem_def s sdiv_smod_nonneg)
  have "go_quo (go_rem d time_Second) time_Nanosecond = word_of_int (?k mod 1000000000)"
    unfolding r go_quo_def s sint_word_of_int_small [OF m] by simp
  then have "(ucast (go_quo (go_rem d time_Second) time_Nanosecond) :: u32)
               = word_of_int (?k mod 1000000000)"
    by (simp only:) (transfer, simp)
  with q show ?thesis
    by (simp add: durationToTimespec_def)
qed


lemma uint_word_of_int_u64:
  fixes k :: int
  assumes "0 \<le> k" and "k < 2 ^ 64"
  shows "uint (word_of_int k :: u64) = k"
  using assms by (simp add: uint_word_of_int take_bit_int_eq_self flip: take_bit_eq_mod)

lemma uint_word_of_int_u32:
  fixes k :: int
  assumes "0 \<le> k" and "k < 2 ^ 32"
  shows "uint (word_of_int k :: u32) = k"
  using assms by (simp add: uint_word_of_int take_bit_int_eq_self flip: take_bit_eq_mod)

text \<open>
  C9, as amended. For every duration \<open>d \<ge> 0\<close> (each is below \<open>2 ^ 63\<close> nanoseconds, so
  below \<open>2 ^ 64\<close> seconds), \<open>durationToTimespec\<close> yields the floor of \<open>d / 1s\<close> and the
  remainder, a nanosecond count below \<open>10 ^ 9\<close>, and \<open>sec * 1s + nsec * 1ns\<close> is \<open>d\<close>
  again, as a 64-bit duration and as an integer.
\<close>

theorem timeout_roundtrip:
  assumes "0 \<le> sint d"
  shows "(case durationToTimespec d of
            (sec, nsec) \<Rightarrow>
              timespecToDuration sec nsec = d
            \<and> uint sec = sint d div 1000000000
            \<and> uint nsec = sint d mod 1000000000
            \<and> uint sec * 1000000000 + uint nsec = sint d)"
proof -
  let ?k = "sint d"
  let ?q = "?k div 1000000000" and ?r = "?k mod 1000000000"
  have k63: "?k < 2 ^ 63"
    using sint_lt [of d] by simp
  have r: "0 \<le> ?r" "?r < 1000000000"
    by simp_all
  have r32: "?r < 2 ^ 32"
  proof -
    have "?r < 1000000000" by simp
    also have "\<dots> < (2::int) ^ 32" by simp
    finally show ?thesis .
  qed
  have q: "0 \<le> ?q" "?q < 2 ^ 64"
  proof -
    show "0 \<le> ?q" using assms by (simp add: pos_imp_zdiv_nonneg_iff)
    have "?q \<le> ?k" using zdiv_mono2 [of ?k 1 1000000000] assms by simp
    also have "\<dots> < 2 ^ 63" by (rule k63)
    also have "\<dots> < (2::int) ^ 64" by simp
    finally show "?q < 2 ^ 64" .
  qed
  have us: "uint (word_of_int ?q :: u64) = ?q"
    by (rule uint_word_of_int_u64 [OF q])
  have un: "uint (word_of_int ?r :: u32) = ?r"
    by (rule uint_word_of_int_u32 [OF r(1) r32])
  have "(ucast (word_of_int ?r :: u32) :: u64) = word_of_int (uint (word_of_int ?r :: u32))"
    by transfer simp
  then have uc: "(ucast (word_of_int ?r :: u32) :: u64) = word_of_int ?r"
    by (simp only: un)
  have e: "?q * 1000000000 + ?r = ?k"
    by simp
  have "(word_of_int ?k :: u64) = word_of_int ?q * 1000000000 + word_of_int ?r"
    by (subst e [symmetric]) (simp only: of_int_add of_int_mult of_int_numeral)
  then have "word_of_int ?q * 1000000000 + word_of_int ?r = d"
    by simp
  then have rt: "timespecToDuration (word_of_int ?q) (word_of_int ?r) = d"
    unfolding timespecToDuration_def uc
    by (simp add: time_Second_def time_Nanosecond_def)
  show ?thesis
    unfolding durationToTimespec_nonneg [OF assms]
    using rt us un by simp
qed

theorem timeout_roundtrip_witness:
  "0 \<le> sint (1500000000 :: u64)
   \<and> durationToTimespec 1500000000 = (1, 500000000)
   \<and> timespecToDuration 1 500000000 = 1500000000"
proof -
  have h: "0 \<le> sint (1500000000 :: u64)" by simp
  from timeout_roundtrip [OF h] show ?thesis
    by (simp add: durationToTimespec_nonneg)
qed

theorem timeout_roundtrip_counterexample:
  "sint (- 1 :: u64) = - 1
   \<and> durationToTimespec (- 1) = (0, 4294967295)
   \<and> timespecToDuration 0 4294967295 = 4294967295
   \<and> timespecToDuration 0 4294967295 \<noteq> - 1"
  by (simp add: durationToTimespec_def go_quo_def go_rem_def time_Second_def
      time_Nanosecond_def timespecToDuration_def signed_divide_int_def signed_modulo_int_def
      unsigned_minus_1_eq_mask mask_eq_exp_minus_1)

section \<open>READDIR serialization\<close>

lemma fitting_le: "fitting B es \<le> length es"
  by (induction es arbitrary: B) simp_all

lemma fitting_iff:
  "j \<le> length es \<Longrightarrow> (sum_list (map dirent_padded (take j es)) \<le> B) = (j \<le> fitting B es)"
proof (induction es arbitrary: j B)
  case Nil
  then show ?case by simp
next
  case (Cons e es)
  show ?case
  proof (cases j)
    case 0
    then show ?thesis by simp
  next
    case (Suc j')
    with Cons.prems have "j' \<le> length es" by simp
    from Cons.IH [OF this, of "B - dirent_padded e"] Suc show ?thesis
      by auto
  qed
qed

lemma fitting_sum: "sum_list (map dirent_padded (take (fitting B es) es)) \<le> B"
  using fitting_iff [OF fitting_le, of B es] by simp

lemma length_concat_records:
  "length (concat (map dirent_record xs)) = sum_list (map dirent_padded xs)"
  by (induction xs) (simp_all add: length_dirent_record dirent_padded_def)

lemma aligned_records: "8 dvd sum_list (map dirent_padded xs)"
  by (induction xs) (simp_all add: dirent_padded_def pad8_bounds(3))

lemma u32_gt_of_nat:
  assumes "n < 2 ^ 32"
  shows "((of_nat n :: u32) > maxSize) = (unat maxSize < n)"
  using assms by (simp add: word_less_nat_alt unat_of_nat_u32)

lemma u32_gt_of_nat_add:
  assumes "a + b < 2 ^ 32"
  shows "(maxSize < (of_nat a :: u32) + of_nat b) = (unat maxSize < a + b)"
  using u32_gt_of_nat [OF assms, of maxSize] by simp

text \<open>The loop, started with any buffer that respects the budget.\<close>

lemma serializeDirents_loop_eq:
  assumes "length buf + sum_list (map dirent_padded es) < 2 ^ 32"
    and "length buf \<le> unat maxSize"
  shows "serializeDirents_loop es maxSize buf =
           buf @ concat (map dirent_record (take (fitting (unat maxSize - length buf) es) es))"
  using assms
proof (induction es arbitrary: buf)
  case Nil
  then show ?case by simp
next
  case (Cons e es)
  let ?P = "dirent_padded e"
  have P: "pad8 (DirentSize + length (de_Name e)) = ?P"
    by (simp add: dirent_padded_def DirentSize_def)
  have lt: "length buf + ?P < 2 ^ 32"
    using Cons.prems(1) by simp
  show ?case
  proof (cases "unat maxSize < length buf + ?P")
    case True
    then have "\<not> ?P \<le> unat maxSize - length buf"
      using Cons.prems(2) by arith
    with True show ?thesis
      by (simp add: Let_def P u32_gt_of_nat_add [OF lt])
  next
    case False
    let ?buf = "buf @ dirent_record e"
    have l: "length ?buf = length buf + ?P"
      by (simp add: length_dirent_record dirent_padded_def)
    have 1: "length ?buf + sum_list (map dirent_padded es) < 2 ^ 32"
      using Cons.prems(1) l by simp
    have 2: "length ?buf \<le> unat maxSize"
      using False l by simp
    have f: "?P \<le> unat maxSize - length buf"
      using False by arith
    have d: "unat maxSize - length ?buf = unat maxSize - length buf - ?P"
      using l by simp
    show ?thesis
      using False Cons.IH [OF 1 2] f
      by (simp add: Let_def P u32_gt_of_nat_add [OF lt] d del: length_append)
  qed
qed

text \<open>
  C3, as amended. For every list of plain entries whose padded records take less than
  \<open>2 ^ 32\<close> bytes together, and every budget \<open>B\<close>: \<open>serializeDirents\<close> emits, in input
  order, the records of the first \<open>k\<close> entries, where \<open>k\<close> is the length of the longest
  prefix whose cumulative padded size does not exceed \<open>B\<close> (a prefix fits exactly when
  it has at most \<open>k\<close> entries). The emitted length is that cumulative size, at most \<open>B\<close>;
  every record starts at a multiple of 8 (the start of record \<open>i\<close> is the length of the
  \<open>i\<close> records before it); no record is split: each one is whole, \<open>(24 + namelen + 7) & ~7\<close>
  bytes made of the 24-byte header, the name, and zero bytes up to the next multiple of 8.
\<close>

theorem readdir_serialization:
  assumes "sum_list (map dirent_padded es) < 2 ^ 32"
  shows "(let B = unat maxSize;
              k = fitting B es;
              out = serializeDirents es maxSize
          in out = concat (map dirent_record (take k es))
           \<and> k \<le> length es
           \<and> (\<forall>j\<le>length es. (sum_list (map dirent_padded (take j es)) \<le> B) = (j \<le> k))
           \<and> length out = sum_list (map dirent_padded (take k es))
           \<and> length out \<le> B
           \<and> (\<forall>i\<le>k. 8 dvd length (concat (map dirent_record (take i es))))
           \<and> (\<forall>e\<in>set es.
                 length (dirent_record e) = pad8 (24 + length (de_Name e))
               \<and> 8 dvd length (dirent_record e)
               \<and> dirent_record e =
                   le64 (de_Ino e) @ le64 (de_Offset e) @ le32 (of_nat (length (de_Name e)))
                   @ le32 (de_Type e) @ de_Name e
                   @ replicate (pad8 (24 + length (de_Name e)) - (24 + length (de_Name e))) 0))"
proof -
  have out: "serializeDirents es maxSize
               = concat (map dirent_record (take (fitting (unat maxSize) es) es))"
    using serializeDirents_loop_eq [of "[]" es maxSize] assms
    by (simp add: serializeDirents_def)
  have len: "length (serializeDirents es maxSize)
               = sum_list (map dirent_padded (take (fitting (unat maxSize) es) es))"
    by (simp only: out length_concat_records)
  show ?thesis
    unfolding Let_def
  proof (intro conjI allI impI ballI)
    show "serializeDirents es maxSize
            = concat (map dirent_record (take (fitting (unat maxSize) es) es))"
      by (rule out)
    show "fitting (unat maxSize) es \<le> length es"
      by (rule fitting_le)
    show "(sum_list (map dirent_padded (take j es)) \<le> unat maxSize)
            = (j \<le> fitting (unat maxSize) es)" if "j \<le> length es" for j
      using that by (rule fitting_iff)
    show "length (serializeDirents es maxSize)
            = sum_list (map dirent_padded (take (fitting (unat maxSize) es) es))"
      by (rule len)
    show "length (serializeDirents es maxSize) \<le> unat maxSize"
      unfolding len by (rule fitting_sum)
    show "8 dvd length (concat (map dirent_record (take i es)))" for i
      unfolding length_concat_records by (rule aligned_records)
    show "length (dirent_record e) = pad8 (24 + length (de_Name e))" for e
      by (rule length_dirent_record)
    show "8 dvd length (dirent_record e)" for e
      unfolding length_dirent_record by (rule pad8_bounds(3))
    show "dirent_record e =
           le64 (de_Ino e) @ le64 (de_Offset e) @ le32 (of_nat (length (de_Name e)))
           @ le32 (de_Type e) @ de_Name e
           @ replicate (pad8 (24 + length (de_Name e)) - (24 + length (de_Name e))) 0" for e
      by (rule dirent_record_eq)
  qed
qed

theorem readdir_serialization_witness:
  "(let e1 = \<lparr> de_Ino = 1, de_Offset = 1, de_Type = 4, de_Name = [46] \<rparr>;
        e2 = \<lparr> de_Ino = 1, de_Offset = 2, de_Type = 4, de_Name = [46, 46] \<rparr>;
        e3 = \<lparr> de_Ino = 2, de_Offset = 3, de_Type = 8, de_Name = hello_txt \<rparr>
    in sum_list (map dirent_padded [e1, e2, e3]) < 2 ^ 32
     \<and> fitting (unat (64 :: u32)) [e1, e2, e3] = 2
     \<and> serializeDirents [e1, e2, e3] 64 = dirent_record e1 @ dirent_record e2
     \<and> length (serializeDirents [e1, e2, e3] 64) = 64)"
proof -
  define e1 :: dir_entry where "e1 = \<lparr> de_Ino = 1, de_Offset = 1, de_Type = 4, de_Name = [46] \<rparr>"
  define e2 :: dir_entry where "e2 = \<lparr> de_Ino = 1, de_Offset = 2, de_Type = 4, de_Name = [46, 46] \<rparr>"
  define e3 :: dir_entry where "e3 = \<lparr> de_Ino = 2, de_Offset = 3, de_Type = 8, de_Name = hello_txt \<rparr>"
  have p: "dirent_padded e1 = 32" "dirent_padded e2 = 32" "dirent_padded e3 = 40"
    by (simp_all add: dirent_padded_def pad8_eq e1_def e2_def e3_def hello_txt_def)
  have h: "sum_list (map dirent_padded [e1, e2, e3]) < 2 ^ 32"
    by (simp add: p)
  have k: "fitting (unat (64 :: u32)) [e1, e2, e3] = 2"
    by (simp add: p)
  from readdir_serialization [OF h, of 64]
  have o: "serializeDirents [e1, e2, e3] 64 = concat (map dirent_record (take 2 [e1, e2, e3]))"
    and l: "length (serializeDirents [e1, e2, e3] 64)
              = sum_list (map dirent_padded (take 2 [e1, e2, e3]))"
    unfolding Let_def k by blast+
  have t: "take 2 [e1, e2, e3] = [e1, e2]"
    by (simp add: numeral_2_eq_2)
  show ?thesis
    unfolding Let_def e1_def [symmetric] e2_def [symmetric] e3_def [symmetric]
    using h k o l by (simp add: t p)
qed

theorem readdir_serialization_counterexample:
  "length (serializeDirents
      [\<lparr> de_Ino = 2, de_Offset = 1, de_Type = 8, de_Name = replicate 4294967272 97 \<rparr>] 0)
     = 4294967296
   \<and> unat (0 :: u32) < 4294967296"
  by (simp add: serializeDirents_def Let_def DirentSize_def pad8_eq length_dirent_record)

section \<open>One reply per request\<close>

text \<open>What a handler writes: one frame when it returns \<open>nil\<close> (none for the three
  opcodes that are never answered), nothing when it returns an error or panics.\<close>

lemma handler_frames:
  assumes "handlers op = Some h" and "h fs s req = (s', out)"
  shows "\<exists>fr. c_written (s_conn s') = c_written (s_conn s) @ fr
           \<and> length fr = (if out = Returned None \<and> op \<notin> {OpForget, OpBatchForget, OpInterrupt}
                          then 1 else 0)"
proof -
  have init: "handleInit fs s req = (s', out) \<Longrightarrow>
      \<exists>fr. c_written (s_conn s') = c_written (s_conn s) @ fr
         \<and> length fr = (if out = Returned None then 1 else 0)"
    by (auto simp add: handleInit_def Let_def record_call_def sendResponse_eq
        split: option.splits if_splits)
  have destroy: "handleDestroy fs s req = (s', out) \<Longrightarrow>
      \<exists>fr. c_written (s_conn s') = c_written (s_conn s) @ fr
         \<and> length fr = (if out = Returned None then 1 else 0)"
    by (auto simp add: handleDestroy_def Let_def record_call_def sendResponse_eq)
  have lookup: "handleLookup fs s req = (s', out) \<Longrightarrow>
      \<exists>fr. c_written (s_conn s') = c_written (s_conn s) @ fr
         \<and> length fr = (if out = Returned None then 1 else 0)"
    by (auto simp add: handleLookup_def Let_def record_call_def sendResponse_eq
        split: sum.splits)
  have forget: "handleForget fs s req = (s', out) \<Longrightarrow> c_written (s_conn s') = c_written (s_conn s)"
    by (auto simp add: handleForget_def Let_def record_call_def
        split: option.splits)
  have batch: "handleBatchForget fs s req = (s', out) \<Longrightarrow> c_written (s_conn s') = c_written (s_conn s)"
    by (auto simp add: handleBatchForget_def Let_def record_call_def
        split: option.splits if_splits)
  have getattr: "handleGetattr fs s req = (s', out) \<Longrightarrow>
      \<exists>fr. c_written (s_conn s') = c_written (s_conn s) @ fr
         \<and> length fr = (if out = Returned None then 1 else 0)"
    by (auto simp add: handleGetattr_def Let_def record_call_def sendResponse_eq
        split: option.splits sum.splits)
  have readlink: "handleReadlink fs s req = (s', out) \<Longrightarrow>
      \<exists>fr. c_written (s_conn s') = c_written (s_conn s) @ fr
         \<and> length fr = (if out = Returned None then 1 else 0)"
    by (auto simp add: handleReadlink_def Let_def record_call_def sendResponse_eq
        split: sum.splits)
  have "open": "handleOpen fs s req = (s', out) \<Longrightarrow>
      \<exists>fr. c_written (s_conn s') = c_written (s_conn s) @ fr
         \<and> length fr = (if out = Returned None then 1 else 0)"
    by (auto simp add: handleOpen_def Let_def record_call_def sendResponse_eq
        split: option.splits sum.splits)
  have read: "handleRead fs s req = (s', out) \<Longrightarrow>
      \<exists>fr. c_written (s_conn s') = c_written (s_conn s) @ fr
         \<and> length fr = (if out = Returned None then 1 else 0)"
    by (auto simp add: handleRead_def Let_def record_call_def sendResponse_eq
        split: option.splits sum.splits)
  have release: "handleRelease fs s req = (s', out) \<Longrightarrow>
      \<exists>fr. c_written (s_conn s') = c_written (s_conn s) @ fr
         \<and> length fr = (if out = Returned None then 1 else 0)"
    by (auto simp add: handleRelease_def Let_def record_call_def sendResponse_eq
        split: option.splits)
  have opendir: "handleOpendir fs s req = (s', out) \<Longrightarrow>
      \<exists>fr. c_written (s_conn s') = c_written (s_conn s) @ fr
         \<and> length fr = (if out = Returned None then 1 else 0)"
    by (auto simp add: handleOpendir_def Let_def record_call_def sendResponse_eq
        split: option.splits sum.splits)
  have readdir: "handleReaddir fs s req = (s', out) \<Longrightarrow>
      \<exists>fr. c_written (s_conn s') = c_written (s_conn s) @ fr
         \<and> length fr = (if out = Returned None then 1 else 0)"
    by (auto simp add: handleReaddir_def Let_def record_call_def sendResponse_eq
        split: option.splits sum.splits)
  have readdirplus: "handleReaddirplus fs s req = (s', out) \<Longrightarrow>
      \<exists>fr. c_written (s_conn s') = c_written (s_conn s) @ fr
         \<and> length fr = (if out = Returned None then 1 else 0)"
    by (auto simp add: handleReaddirplus_def Let_def record_call_def sendResponse_eq
        split: option.splits sum.splits)
  have releasedir: "handleReleasedir fs s req = (s', out) \<Longrightarrow>
      \<exists>fr. c_written (s_conn s') = c_written (s_conn s) @ fr
         \<and> length fr = (if out = Returned None then 1 else 0)"
    by (auto simp add: handleReleasedir_def Let_def record_call_def sendResponse_eq
        split: option.splits)
  have statfs: "handleStatfs fs s req = (s', out) \<Longrightarrow>
      \<exists>fr. c_written (s_conn s') = c_written (s_conn s) @ fr
         \<and> length fr = (if out = Returned None then 1 else 0)"
    by (auto simp add: handleStatfs_def Let_def record_call_def sendResponse_eq
        split: sum.splits)
  have access: "handleAccess fs s req = (s', out) \<Longrightarrow>
      \<exists>fr. c_written (s_conn s') = c_written (s_conn s) @ fr
         \<and> length fr = (if out = Returned None then 1 else 0)"
    by (auto simp add: handleAccess_def Let_def record_call_def sendResponse_eq
        split: option.splits)
  have flush: "handleFlush fs s req = (s', out) \<Longrightarrow>
      \<exists>fr. c_written (s_conn s') = c_written (s_conn s) @ fr
         \<and> length fr = (if out = Returned None then 1 else 0)"
    by (auto simp add: handleFlush_def sendResponse_eq)
  have interrupt: "handleInterrupt fs s req = (s', out) \<Longrightarrow> c_written (s_conn s') = c_written (s_conn s)"
    by (auto simp add: handleInterrupt_def)
  from assms(1) consider
      "op = OpInit" "h = handleInit" | "op = OpDestroy" "h = handleDestroy"
    | "op = OpLookup" "h = handleLookup" | "op = OpForget" "h = handleForget"
    | "op = OpBatchForget" "h = handleBatchForget" | "op = OpGetattr" "h = handleGetattr"
    | "op = OpReadlink" "h = handleReadlink" | "op = OpOpen" "h = handleOpen"
    | "op = OpRead" "h = handleRead" | "op = OpRelease" "h = handleRelease"
    | "op = OpOpendir" "h = handleOpendir" | "op = OpReaddir" "h = handleReaddir"
    | "op = OpReaddirplus" "h = handleReaddirplus" | "op = OpReleasedir" "h = handleReleasedir"
    | "op = OpStatfs" "h = handleStatfs" | "op = OpAccess" "h = handleAccess"
    | "op = OpFlush" "h = handleFlush" | "op = OpInterrupt" "h = handleInterrupt"
    by (auto simp add: handlers_def split: if_splits)
  then show ?thesis
    using assms(2) init destroy lookup forget batch getattr readlink "open" read release
      opendir readdir readdirplus releasedir statfs access flush interrupt
    by cases (simp_all add: opcode_defs)
qed


text \<open>
  The dispatcher writes exactly one frame for a request, none for FORGET, BATCH_FORGET
  and INTERRUPT, provided the handler does not panic; a panic leaves the request
  without any frame.
\<close>

lemma one_reply_unless_panic:
  assumes "handleRequest fs s req = (s', panicked)"
  shows "\<exists>fr. c_written (s_conn s') = c_written (s_conn s) @ fr
           \<and> length fr = (if panicked \<or> ih_Opcode (r_header req) \<in> {OpForget, OpBatchForget, OpInterrupt}
                          then 0 else 1)"
proof -
  let ?op = "ih_Opcode (r_header req)"
  show ?thesis
  proof (cases "isWriteOp ?op")
    case True
    then have "?op \<notin> {OpForget, OpBatchForget, OpInterrupt}"
      by (auto simp add: isWriteOp_def opcode_defs)
    with True assms show ?thesis
      by (auto simp add: handleRequest_def Let_def sendError_eq)
  next
    case False
    show ?thesis
    proof (cases "handlers ?op")
      case None
      then have "?op \<notin> {OpForget, OpBatchForget, OpInterrupt}"
        by (auto simp add: handlers_def opcode_defs split: if_splits)
      with False None assms show ?thesis
        by (auto simp add: handleRequest_def Let_def sendError_eq)
    next
      case (Some h)
      obtain s1 out where h: "h fs s req = (s1, out)"
        by (cases "h fs s req")
      from handler_frames [OF Some h] obtain fr where
        fr: "c_written (s_conn s1) = c_written (s_conn s) @ fr"
          "length fr = (if out = Returned None \<and> ?op \<notin> {OpForget, OpBatchForget, OpInterrupt}
                        then 1 else 0)"
        by blast
      have r: "handleRequest fs s req =
                 (case out of Panicked \<Rightarrow> (s1, True)
                  | Returned (Some err) \<Rightarrow> (sendError s1 req err, False)
                  | Returned None \<Rightarrow> (s1, False))"
        using handleRequest_handler [OF False Some, of fs s] h by simp
      have ni: "?op \<noteq> OpInterrupt" if "out = Returned (Some e)" for e
      proof
        assume "?op = OpInterrupt"
        with Some have "h = handleInterrupt"
          by (simp add: handlers_def opcode_defs)
        with h that show False
          by (simp add: handleInterrupt_def)
      qed
      show ?thesis
      proof (cases out)
        case Panicked
        with r assms fr show ?thesis by auto
      next
        case (Returned e)
        show ?thesis
        proof (cases e)
          case None
          with Returned r assms fr show ?thesis by auto
        next
          case (Some err)
          with Returned r assms fr ni [of err] show ?thesis
            by (auto simp add: sendError_eq)
        qed
      qed
    qed
  qed
qed

section \<open>A body shorter than its layout\<close>

lemma length_attrOutBytes: "length (attrOutBytes out) = 104"
  apply (simp only: attrOutBytes_def Let_def)
  apply (intro length_PutUint length_writeAttr)
  apply (simp_all add: make_bytes_def AttrOutSize_def)
  done

text \<open>
  A GETATTR request whose body has 4 of the 16 bytes of \<open>GetAttrIn\<close> is not rejected
  either: the handler reads the missing fields from the bytes that follow the request
  in the pooled buffer, calls \<open>GetAttr\<close> and answers with a success frame of
  \<open>16 + 104\<close> bytes.
\<close>

lemma getattr_short_body_not_rejected:
  "(let s = Mount zero_options;
        req = newRequest (in_header_bytes \<lparr> ih_Len = 44, ih_Opcode = OpGetattr, ih_Unique = 8,
                 ih_NodeID = 1, ih_Uid = 0, ih_Gid = 0, ih_Pid = 1, ih_Padding = 0 \<rparr>
               @ [0, 0, 0, 0]) (replicate 135164 0);
        s' = fst (handleRequest MyFS s req)
    in \<not> snd (handleRequest MyFS s req)
     \<and> s_calls s' = [CallGetAttr \<lparr> ctx_uid = 0, ctx_gid = 0, ctx_pid = 1, ctx_unique = 8 \<rparr> 1 None]
     \<and> length (c_written (s_conn s')) = 1
     \<and> length (hd (c_written (s_conn s'))) = 120
     \<and> OutHeader_Error (hd (c_written (s_conn s'))) = 0)"
proof -
  define req where "req = newRequest (in_header_bytes \<lparr> ih_Len = 44, ih_Opcode = OpGetattr,
     ih_Unique = 8, ih_NodeID = 1, ih_Uid = 0, ih_Gid = 0, ih_Pid = 1, ih_Padding = 0 \<rparr>
     @ [0, 0, 0, 0]) (replicate 135164 0)"
  define s where "s = Mount zero_options"
  have op: "ih_Opcode (r_header req) = OpGetattr" and n: "ih_NodeID (r_header req) = 1"
    by (simp_all add: req_def newRequest_in_header_bytes)
  have bd: "body req = Some (0 # 0 # 0 # 0 # replicate 135164 0)"
    using body_newRequest(1) [of "[0, 0, 0, 0]"] by (simp add: req_def)
  have ctx: "newContext req = \<lparr> ctx_uid = 0, ctx_gid = 0, ctx_pid = 1, ctx_unique = 8 \<rparr>"
    by (simp add: newContext_def req_def newRequest_in_header_bytes)
  have fl: "GetAttrIn_Flags (0 # 0 # 0 # 0 # replicate 135164 0) = 0"
    by (simp add: GetAttrIn_Flags_def u32_at_def)
  have s0: "s_calls s = []" "c_written (s_conn s) = []"
    by (simp_all add: s_def Mount_def Let_def)
  have h: "handleRequest MyFS s req =
             (case handleGetattr MyFS s req of
                (s', Panicked) \<Rightarrow> (s', True)
              | (s', Returned (Some err)) \<Rightarrow> (sendError s' req err, False)
              | (s', Returned None) \<Rightarrow> (s', False))"
    using handleRequest_handler [of req handleGetattr MyFS s] op
    by (simp add: handlers_eval)
  show ?thesis
    unfolding Let_def req_def [symmetric] s_def [symmetric] h
    by (simp add: handleGetattr_def bd fl Let_def n ctx MyFS_def RootInode_def record_call_def
        sendResponse_eq s0 length_success_frame length_attrOutBytes OutHeader_success_frame)
qed

end
